theory Spec2Isabelle
  imports Complex_Main "HOL-Library.AList"
begin

section \<open>Data model (useGameState)\<close>

text \<open>
  The state engine is the React hook \<open>useGameState\<close>. Every operation of the hook hands
  React a state updater \<open>prev => next\<close>; the updater is embedded as a pure function on
  \<open>GameState\<close>, with the boolean that the operation returns next to the new state. The
  ambient inputs of the source are made parameters: each \<open>Math.random()\<close> draw is a number
  \<open>0 \<le> r < 1\<close>, \<open>Date.now()\<close> is a natural number of milliseconds, and where the value an
  operation returns depends on when React runs the updater, that is a parameter too.

  A TypeScript \<open>number\<close> is modelled as a real number; \<open>NaN\<close> and the infinities are
  outside the model. The arithmetic of the currency operations, of trading and of the
  quests is the arithmetic of doubles: each operation is followed by the rounding \<open>fl\<close>
  defined below. The clock arithmetic (\<open>Date.now() + 30000\<close>) is on integers far below
  \<open>2 ^ 53\<close>, where doubles are exact; the growth step of \<open>PlantSlot\<close> and the trade panel
  are modelled without the rounding. Array positions (\<open>phaseIndex\<close>, a slot index, the
  index found by \<open>findIndex\<close>) are natural numbers. A string is a list of bytes; a letter
  outside ASCII is written as its UTF-8 bytes. The dictionary \<open>upgrades\<close> is a map.
\<close>

type_synonym number = real

datatype SoilType = Basic | LightMix | AllMix

record PlantModifiers =
  waterStacks :: number
  fertilizerApplied :: bool
  soilType :: SoilType
  lastWaterTime :: number
  lastFertilizerTime :: number
  qualityMultiplier :: number

record Plant =
  id_P :: string
  strainId :: string
  phaseIndex :: nat
  elapsedInPhase :: number
  plantedAt :: number
  modifiers :: PlantModifiers

record TradeOffer =
  id_O :: string
  quantity :: number
  pricePerBud :: number

text \<open>An optional property (\<open>priceMultiplier?: number\<close>) is an \<open>option\<close>.\<close>

record Effects =
  priceMultiplier :: "number option"
  quantityMultiplier :: "number option"
  growthMultiplier :: "number option"

record GameEvent =
  id_E :: string
  name :: string
  description :: string
  endsAt :: number
  effects :: Effects

datatype QuestType = Harvest | Sell | Water

record Reward =
  nugs_R :: "number option"
  buds_R :: "number option"

record Quest =
  id_Q :: string
  type :: QuestType
  description_Q :: string
  goal :: number
  progress :: number
  reward :: Reward
  claimed :: bool

record Trade =
  offers :: "TradeOffer list"
  nextRefreshAt :: number

record Stats =
  totalHarvests :: number
  bestHarvest :: number
  totalNugsEarned :: number
  totalBudsHarvested :: number
  totalBudsSold :: number
  totalTrades :: number

record Settings =
  sfxEnabled :: bool
  randomEventsEnabled :: bool

text \<open>An element of the slot array: a plant, \<open>null\<close>, or a hole (an index below the
  length of the array that was never written).\<close>

datatype Slot = Hole | Null | Planted Plant

record GameState =
  nugs :: number
  buds :: number
  slots :: "Slot list"
  upgrades :: "string \<rightharpoonup> number"
  trade :: Trade
  event :: "GameEvent option"
  quests :: "Quest list"
  stats :: Stats
  settings :: Settings

definition DEFAULT_QUESTS :: "Quest list" where
  "DEFAULT_QUESTS =
    [\<lparr>id_Q = ''q-h-1'', type = Harvest, description_Q = ''Ernte 3 Pflanzen'', goal = 3,
      progress = 0, reward = \<lparr>nugs_R = Some 75, buds_R = None\<rparr>, claimed = False\<rparr>,
     \<lparr>id_Q = ''q-s-1'', type = Sell, description_Q = ''Verkaufe 100 Buds'', goal = 100,
      progress = 0, reward = \<lparr>nugs_R = Some 150, buds_R = None\<rparr>, claimed = False\<rparr>,
     \<lparr>id_Q = ''q-w-1'', type = Water, description_Q = ''Gie'' @ [CHR 0xC3, CHR 0x9F] @ ''e 10x'', goal = 10,
      progress = 0, reward = \<lparr>nugs_R = None, buds_R = Some 20\<rparr>, claimed = False\<rparr>]"

definition INITIAL_STATE :: GameState where
  "INITIAL_STATE =
    \<lparr>nugs = 100, buds = 0, slots = [Null, Null], upgrades = Map.empty,
     trade = \<lparr>offers = [], nextRefreshAt = 0\<rparr>,
     event = None,
     quests = DEFAULT_QUESTS,
     stats = \<lparr>totalHarvests = 0, bestHarvest = 0, totalNugsEarned = 0,
              totalBudsHarvested = 0, totalBudsSold = 0, totalTrades = 0\<rparr>,
     settings = \<lparr>sfxEnabled = True, randomEventsEnabled = True\<rparr>\<rparr>"

section \<open>JavaScript library functions used by the engine\<close>

definition Math_floor :: "number \<Rightarrow> number" where
  "Math_floor x = of_int \<lfloor>x\<rfloor>"

text \<open>\<open>Math.round\<close> rounds to the nearest integer, a tie going up.\<close>

definition Math_round :: "number \<Rightarrow> number" where
  "Math_round x = of_int \<lfloor>x + 1 / 2\<rfloor>"

text \<open>
  Arithmetic on doubles. The result of \<open>+\<close>, \<open>-\<close>, \<open>*\<close> and \<open>/\<close> on two doubles is the
  exact result rounded to the nearest double, a tie going to the double whose significand
  is even. \<open>fl x\<close> is that rounding for a format with 53 significant bits and an unbounded
  exponent: \<open>expo x\<close> is the binade of \<open>x\<close>, \<open>ulp x\<close> the distance between neighbouring
  doubles of that binade, and \<open>roundEven\<close> rounds to the nearest integer with a tie going to
  the even one. \<open>fl\<close> gives the result of IEEE 754 binary64 whenever the exact result is 0
  or has a size from \<open>2 ^ -1022\<close> up to, not including, \<open>2 ^ 1024 - 2 ^ 970\<close>; the
  overflow to an infinity and the coarser rounding below \<open>2 ^ -1022\<close> are not modelled. A decimal literal of the
  source denotes the nearest double: \<open>1.2\<close> is \<open>fl (12 / 10)\<close>.
\<close>

definition roundEven :: "real \<Rightarrow> int" where
  "roundEven x =
    (if x - of_int \<lfloor>x\<rfloor> < 1 / 2 then \<lfloor>x\<rfloor>
     else if 1 / 2 < x - of_int \<lfloor>x\<rfloor> then \<lfloor>x\<rfloor> + 1
     else if even \<lfloor>x\<rfloor> then \<lfloor>x\<rfloor> else \<lfloor>x\<rfloor> + 1)"

definition expo :: "real \<Rightarrow> int" where
  "expo x = \<lfloor>log 2 \<bar>x\<bar>\<rfloor>"

definition ulp :: "real \<Rightarrow> real" where
  "ulp x = 2 powr (of_int (expo x) - 52)"

definition fl :: "real \<Rightarrow> real" where
  "fl x = (if x = 0 then 0 else of_int (roundEven (x / ulp x)) * ulp x)"

text \<open>\<open>Array.prototype.findIndex\<close>: the first position whose element satisfies the
  predicate; the source's \<open>-1\<close> is \<open>None\<close>.\<close>

fun findIndex :: "('a \<Rightarrow> bool) \<Rightarrow> 'a list \<Rightarrow> nat option" where
  "findIndex P [] = None"
| "findIndex P (x # xs) = (if P x then Some 0 else map_option Suc (findIndex P xs))"

text \<open>\<open>xs.splice(idx, 1)\<close>: the array without the element at position \<open>idx\<close>.\<close>

definition splice1 :: "nat \<Rightarrow> 'a list \<Rightarrow> 'a list" where
  "splice1 idx xs = take idx xs @ drop (Suc idx) xs"


section \<open>Currency operations\<close>

definition addNugs :: "number \<Rightarrow> GameState \<Rightarrow> GameState" where
  "addNugs amount prev =
    prev\<lparr>nugs := fl (nugs prev + amount),
         stats := (stats prev)\<lparr>totalNugsEarned := fl (totalNugsEarned (stats prev) + max 0 amount)\<rparr>\<rparr>"

text \<open>\<open>spendNugs\<close> and \<open>spendBuds\<close> test the balance in \<open>state\<close>, the state of the
  render in which the callback was created, and subtract from \<open>prev\<close>, the pending state
  that React hands to the updater.\<close>

definition spendNugs :: "number \<Rightarrow> GameState \<Rightarrow> GameState \<Rightarrow> GameState \<times> bool" where
  "spendNugs amount state prev =
    (if nugs state \<ge> amount then (prev\<lparr>nugs := fl (nugs prev - amount)\<rparr>, True)
     else (prev, False))"

definition addBuds :: "number \<Rightarrow> GameState \<Rightarrow> GameState" where
  "addBuds amount prev = prev\<lparr>buds := max 0 (fl (buds prev + amount))\<rparr>"

definition spendBuds :: "number \<Rightarrow> GameState \<Rightarrow> GameState \<Rightarrow> GameState \<times> bool" where
  "spendBuds amount state prev =
    (if buds state \<ge> amount then (prev\<lparr>buds := fl (buds prev - amount)\<rparr>, True)
     else (prev, False))"

section \<open>Economy engine\<close>

text \<open>
  \<open>acceptTradeOffer\<close>, \<open>haggleTradeOffer\<close> and \<open>claimQuestReward\<close> return a local variable
  that their updater sets. The variable is read when the call returns, and React runs a
  queued updater either at once (when no other update is pending) or during the next
  render, after the call has returned. The parameter \<open>eager\<close> says which: the returned flag
  is the updater's flag when \<open>eager\<close> holds and \<open>False\<close>, the initial value of the
  variable, otherwise. The new state is the updater's result in both cases.
\<close>

definition acceptTradeOffer :: "bool \<Rightarrow> string \<Rightarrow> GameState \<Rightarrow> GameState \<times> bool" where
  "acceptTradeOffer eager offerId prev =
    (case find (\<lambda>x. id_O x = offerId) (offers (trade prev)) of
       None \<Rightarrow> (prev, False)
     | Some offer \<Rightarrow>
         if buds prev < quantity offer then (prev, False)
         else
           let revenue = Math_floor (fl (quantity offer * pricePerBud offer)) in
           (prev\<lparr>buds := fl (buds prev - quantity offer),
                 nugs := fl (nugs prev + revenue),
                 stats := (stats prev)
                   \<lparr>totalNugsEarned := fl (totalNugsEarned (stats prev) + revenue),
                    totalBudsSold := fl (totalBudsSold (stats prev) + quantity offer),
                    totalTrades := fl (totalTrades (stats prev) + 1)\<rparr>,
                 trade := (trade prev)
                   \<lparr>offers := filter (\<lambda>x. id_O x \<noteq> offerId) (offers (trade prev))\<rparr>,
                 quests := map (\<lambda>q. if type q = Sell \<and> \<not> claimed q
                                      then q\<lparr>progress := min (goal q) (fl (progress q + quantity offer))\<rparr>
                                      else q) (quests prev)\<rparr>,
            eager))"

text \<open>\<open>rnd\<close> is the value of the single \<open>Math.random()\<close> call.\<close>

definition haggleTradeOffer :: "bool \<Rightarrow> number \<Rightarrow> string \<Rightarrow> GameState \<Rightarrow> GameState \<times> bool" where
  "haggleTradeOffer eager rnd offerId prev =
    (case findIndex (\<lambda>x. id_O x = offerId) (offers (trade prev)) of
       None \<Rightarrow> (prev, False)
     | Some idx \<Rightarrow>
         let current = offers (trade prev) ! idx;
             success = (rnd < fl (4 / 10));
             newPrice = fl (Math_round (fl (fl (pricePerBud current * fl (12 / 10)) * 10)) / 10);
             offers' = (if success
                        then (offers (trade prev))[idx := current\<lparr>pricePerBud := min 5 newPrice\<rparr>]
                        else splice1 idx (offers (trade prev)))
         in (prev\<lparr>trade := (trade prev)\<lparr>offers := offers'\<rparr>\<rparr>, eager \<and> success))"

text \<open>A number inside a template literal (\<open>`offer-${now}-${i}`\<close>), for the natural numbers
  that \<open>Date.now()\<close> and the array index are: its decimal digits.\<close>

fun showNat :: "nat \<Rightarrow> string" where
  "showNat n = (if n < 10 then [''0123456789'' ! n]
                else showNat (n div 10) @ [''0123456789'' ! (n mod 10)])"

declare showNat.simps [simp del]

text \<open>\<open>x ?? 1\<close> on an optional number.\<close>

definition orOne :: "number option \<Rightarrow> number" where
  "orOne x = (case x of None \<Rightarrow> 1 | Some v \<Rightarrow> v)"

text \<open>
  \<open>now\<close> is the value of \<open>Date.now()\<close> and \<open>random k\<close> the value of the \<open>k\<close>-th call of
  \<open>Math.random()\<close> during the update, counted from 0: the callback for offer \<open>i\<close> draws
  the quantity with call \<open>2 i\<close> and the price with call \<open>2 i + 1\<close>.
\<close>

definition generateTradeOffers :: "nat \<Rightarrow> (nat \<Rightarrow> number) \<Rightarrow> GameState \<Rightarrow> GameState" where
  "generateTradeOffers now random prev =
    (let stage = Math_floor (fl (totalHarvests (stats prev) / 5));
         minQtyBase = min 200 (fl (5 + fl (stage * 10)));
         maxQtyBase = min 400 (fl (20 + fl (stage * 20)));
         qMult = orOne (Option.bind (event prev) (\<lambda>e. quantityMultiplier (effects e)));
         pMult = orOne (Option.bind (event prev) (\<lambda>e. priceMultiplier (effects e)));
         offers' = map (\<lambda>i.
           let minQty = Math_floor (fl (minQtyBase * qMult));
               maxQty = Math_floor (fl (maxQtyBase * qMult));
               qty = max minQty (Math_floor (fl (minQty
                       + fl (random (2 * i) * max 1 (fl (fl (maxQty - minQty) + 1))))));
               basePrice = fl (1 + fl (random (2 * i + 1) * 2));
               price = min 4 (max 1 (fl (fl (basePrice + fl (stage * fl (1 / 10))) * pMult)))
           in \<lparr>id_O = ''offer-'' @ showNat now @ ''-'' @ showNat i,
               quantity = qty,
               pricePerBud = fl (Math_round (fl (price * 10)) / 10)\<rparr>) [0..<3]
     in prev\<lparr>trade := \<lparr>offers = offers', nextRefreshAt = of_nat now + 30000\<rparr>\<rparr>)"

section \<open>Quest tracker\<close>



section \<open>Random event controller\<close>

text \<open>The preset of index \<open>k\<close> with \<open>endsAt\<close> filled in, that is \<open>{ ...presets[k], endsAt }\<close>.
  Letters outside ASCII are written as their UTF-8 bytes.\<close>

definition presets :: "number \<Rightarrow> GameEvent list" where
  "presets end =
    [\<lparr>id_E = ''festival'', name = ''Psychedelic Festival'',
      description = ''Euphorische Kundschaft zahlt mehr und kauft mehr.'', endsAt = end,
      effects = \<lparr>priceMultiplier = Some (15 / 10), quantityMultiplier = Some (12 / 10),
                 growthMultiplier = None\<rparr>\<rparr>,
     \<lparr>id_E = ''mystic-fog'', name = ''Mystischer Nebel'',
      description = ''Wachstum verlangsamt sich etwas.'', endsAt = end,
      effects = \<lparr>priceMultiplier = None, quantityMultiplier = None,
                 growthMultiplier = Some (12 / 10)\<rparr>\<rparr>,
     \<lparr>id_E = ''cosmic-alignment'', name = ''Kosmische Ausrichtung'',
      description = ''Kosmische Energien beschleunigen das Wachstum!'', endsAt = end,
      effects = \<lparr>priceMultiplier = None, quantityMultiplier = None,
                 growthMultiplier = Some (8 / 10)\<rparr>\<rparr>,
     \<lparr>id_E = ''market-rush'', name = ''Marktrun'',
      description = ''Kurzzeitig h'' @ [CHR 0xC3, CHR 0xB6] @ ''here Preise.'', endsAt = end,
      effects = \<lparr>priceMultiplier = Some (13 / 10), quantityMultiplier = None,
                 growthMultiplier = None\<rparr>\<rparr>]"

text \<open>\<open>rnd\<close> is the value of \<open>Math.random()\<close>; it lies in \<open>[0, 1)\<close>, so the index
  \<open>Math.floor(rnd * presets.length)\<close> is one of the four positions of the list.\<close>

definition triggerRandomEvent :: "nat \<Rightarrow> number \<Rightarrow> GameState \<Rightarrow> GameState" where
  "triggerRandomEvent now rnd prev =
    (if \<not> randomEventsEnabled (settings prev) then prev
     else prev\<lparr>event := Some (presets (of_nat now + 60000) ! nat \<lfloor>rnd * 4\<rfloor>)\<rparr>)"

definition tickEvent :: "nat \<Rightarrow> GameState \<Rightarrow> GameState" where
  "tickEvent now prev =
    (case event prev of
       None \<Rightarrow> prev
     | Some e \<Rightarrow> if of_nat now < endsAt e then prev else prev\<lparr>event := None\<rparr>)"

section \<open>Trade panel\<close>

text \<open>The trade panel (TradePanel.tsx): \<open>now\<close> is the panel's own clock, sampled every
  500 ms; the refresh button is disabled unless \<open>canRefresh\<close>, and a disabled button does
  not call its handler \<open>onRefresh\<close>.\<close>

definition refreshCooldownMs :: "number \<Rightarrow> number \<Rightarrow> number" where
  "refreshCooldownMs nextRefresh now = max 0 (nextRefresh - now)"

definition canRefresh :: "number \<Rightarrow> number \<Rightarrow> bool" where
  "canRefresh nextRefresh now \<longleftrightarrow> refreshCooldownMs nextRefresh now = 0"

definition clickRefresh :: "number \<Rightarrow> (GameState \<Rightarrow> GameState) \<Rightarrow> GameState \<Rightarrow> GameState" where
  "clickRefresh now onRefresh s =
    (if canRefresh (nextRefreshAt (trade s)) now then onRefresh s else s)"

section \<open>Plant growth (PlantSlot.tsx)\<close>

text \<open>
  The phase catalog \<open>PHASES\<close> (module \<open>@/data/phases\<close>) and the object returned by
  \<open>usePlantLogic(upgrades)\<close> (module \<open>@/hooks/usePlantLogic\<close>) are imported by
  \<open>PlantSlot\<close>; both are parameters of the model. Of a phase only the fields read by
  \<open>PlantSlot\<close> are modelled.
\<close>

record Phase =
  name_Ph :: string
  duration :: number
  waterRecommended :: bool
  fertilizerRecommended :: bool

record 'strain PlantLogic =
  getStrain :: "string \<Rightarrow> 'strain option"
  getTimeMultiplier :: "string \<Rightarrow> number"

text \<open>The duration of the plant's current phase, computed with the same three lines in the
  interval callback and in the render; meaningful for \<open>phaseIndex < length PHASES\<close>.\<close>

definition phaseDuration :: "Phase list \<Rightarrow> 'strain PlantLogic \<Rightarrow> Plant \<Rightarrow> number" where
  "phaseDuration PHASES logic plant =
    (let timeMultiplier = getTimeMultiplier logic (strainId plant);
         soilMultiplier = (if soilType (modifiers plant) = LightMix then 9 / 10 else 1);
         currentPhase = PHASES ! phaseIndex plant
     in duration currentPhase * timeMultiplier * soilMultiplier)"

text \<open>
  Modelled from the spec: the handler behind the \<open>onUpdate\<close> property is passed in by the
  page component that renders the slots. The spec (section 6) lists it as
  \<open>updatePlant(slot, elapsed, phaseIndex)\<close>, and \<open>updatePlant\<close> of the hook overwrites the
  given fields of the plant in the slot (\<open>{ ...plant, ...updates }\<close>). On the plant of the
  slot the handler therefore stores the two values.
\<close>

definition onUpdate :: "number \<Rightarrow> nat \<Rightarrow> Plant \<Rightarrow> Plant" where
  "onUpdate elapsed phase plant = plant\<lparr>elapsedInPhase := elapsed, phaseIndex := phase\<rparr>"

datatype error = TypeError

text \<open>
  One run of the interval callback of a slot that holds a plant. The state of the slot is
  the plant (the \<open>plant\<close> property, as stored in the game state) and the component's own
  counter \<open>localElapsed\<close>. \<open>PHASES[plant.phaseIndex]\<close> is \<open>undefined\<close> beyond the end of the
  catalog, and reading \<open>.duration\<close> of it throws a \<open>TypeError\<close>.
\<close>

definition tick ::
  "Phase list \<Rightarrow> 'strain PlantLogic \<Rightarrow> Plant \<times> number \<Rightarrow> error + Plant \<times> number" where
  "tick PHASES logic view =
    (let plant = fst view; localElapsed = snd view in
     case getStrain logic (strainId plant) of
       None \<Rightarrow> Inr view
     | Some strain \<Rightarrow>
         if length PHASES \<le> phaseIndex plant then Inl TypeError
         else
           let newElapsed = localElapsed + 1 in
           if newElapsed \<ge> phaseDuration PHASES logic plant then
             (let nextPhase = phaseIndex plant + 1 in
              if nextPhase < length PHASES then Inr (onUpdate 0 nextPhase plant, 0)
              else Inr (plant, newElapsed))
           else Inr (onUpdate newElapsed (phaseIndex plant) plant, newElapsed))"

text \<open>\<open>n\<close> runs of the callback in a row; a \<open>TypeError\<close> ends the sequence.\<close>

fun ticks :: "Phase list \<Rightarrow> 'strain PlantLogic \<Rightarrow> nat \<Rightarrow> Plant \<times> number \<Rightarrow> error + Plant \<times> number" where
  "ticks PHASES logic 0 view = Inr view"
| "ticks PHASES logic (Suc n) view =
    (case tick PHASES logic view of
       Inl e \<Rightarrow> Inl e
     | Inr view' \<Rightarrow> ticks PHASES logic n view')"

text \<open>The formula of the spec (section 4.1) for the duration of the current phase, with the
  growth multiplier of the active event as its fourth factor.\<close>

definition phaseDuration_spec ::
  "Phase list \<Rightarrow> 'strain PlantLogic \<Rightarrow> GameEvent option \<Rightarrow> Plant \<Rightarrow> number" where
  "phaseDuration_spec PHASES logic activeEvent plant =
     duration (PHASES ! phaseIndex plant)
     * getTimeMultiplier logic (strainId plant)
     * (if soilType (modifiers plant) = LightMix then 9 / 10 else 1)
     * (case activeEvent of None \<Rightarrow> 1
        | Some e \<Rightarrow> (case growthMultiplier (effects e) of None \<Rightarrow> 1 | Some g \<Rightarrow> g))"

section \<open>Persistence adapter\<close>

text \<open>
  The loader of \<open>useGameState\<close> works on whatever \<open>JSON.parse\<close> returns, so this part is
  modelled on JavaScript values. An object is a finite map from property names to values
  (the order of the properties is not modelled), an array is a list.
\<close>

datatype js =
    JUndefined
  | JNull
  | JBool bool
  | JNum number
  | JStr string
  | JArr "js list"
  | JObj "string \<Rightarrow> js option"

text \<open>An object literal.\<close>

definition obj :: "(string \<times> js) list \<Rightarrow> js" where
  "obj kvs = JObj (map_of kvs)"

text \<open>
  \<open>JSON.parse (JSON.stringify v)\<close> as a function on values: a property whose value is
  \<open>undefined\<close> is left out, \<open>undefined\<close> in an array becomes \<open>null\<close>, every other
  value is kept. For \<open>undefined\<close> itself \<open>JSON.stringify\<close> produces no text; the states
  saved here are objects.
\<close>

definition undefinedToNull :: "js \<Rightarrow> js" where
  "undefinedToNull v = (if v = JUndefined then JNull else v)"

definition dropUndefined :: "js \<Rightarrow> js option" where
  "dropUndefined v = (if v = JUndefined then None else Some v)"

primrec JSON_copy :: "js \<Rightarrow> js" where
  "JSON_copy JUndefined = JUndefined"
| "JSON_copy JNull = JNull"
| "JSON_copy (JBool b) = JBool b"
| "JSON_copy (JNum n) = JNum n"
| "JSON_copy (JStr s) = JStr s"
| "JSON_copy (JArr xs) = JArr (map (\<lambda>x. undefinedToNull (JSON_copy x)) xs)"
| "JSON_copy (JObj m) = JObj (\<lambda>k. Option.bind (map_option JSON_copy (m k)) dropUndefined)"

text \<open>
  The JavaScript value of a state of the declared type \<open>GameState\<close>. An optional property
  that is absent is left out of the object. The state objects built by the hook (the
  literal \<open>INITIAL_STATE\<close> and every \<open>{ ...prev, ... }\<close>) always have the property
  \<open>event\<close>, with the value \<open>undefined\<close> when no event is active.
\<close>

definition encodeOpt :: "string \<Rightarrow> number option \<Rightarrow> (string \<times> js) list" where
  "encodeOpt k x = (case x of None \<Rightarrow> [] | Some v \<Rightarrow> [(k, JNum v)])"

definition encodeSoilType :: "SoilType \<Rightarrow> js" where
  "encodeSoilType t =
    (case t of Basic \<Rightarrow> JStr ''basic'' | LightMix \<Rightarrow> JStr ''light-mix'' | AllMix \<Rightarrow> JStr ''all-mix'')"

definition encodeModifiers :: "PlantModifiers \<Rightarrow> js" where
  "encodeModifiers m =
    obj [(''waterStacks'', JNum (waterStacks m)),
         (''fertilizerApplied'', JBool (fertilizerApplied m)),
         (''soilType'', encodeSoilType (soilType m)),
         (''lastWaterTime'', JNum (lastWaterTime m)),
         (''lastFertilizerTime'', JNum (lastFertilizerTime m)),
         (''qualityMultiplier'', JNum (qualityMultiplier m))]"

definition encodePlant :: "Plant \<Rightarrow> js" where
  "encodePlant p =
    obj [(''id'', JStr (id_P p)),
         (''strainId'', JStr (strainId p)),
         (''phaseIndex'', JNum (of_nat (phaseIndex p))),
         (''elapsedInPhase'', JNum (elapsedInPhase p)),
         (''plantedAt'', JNum (plantedAt p)),
         (''modifiers'', encodeModifiers (modifiers p))]"

text \<open>A hole of the slot array reads as \<open>undefined\<close>.\<close>

definition encodeSlot :: "Slot \<Rightarrow> js" where
  "encodeSlot x = (case x of Hole \<Rightarrow> JUndefined | Null \<Rightarrow> JNull | Planted p \<Rightarrow> encodePlant p)"

definition encodeOffer :: "TradeOffer \<Rightarrow> js" where
  "encodeOffer x =
    obj [(''id'', JStr (id_O x)),
         (''quantity'', JNum (quantity x)),
         (''pricePerBud'', JNum (pricePerBud x))]"

definition encodeTrade :: "Trade \<Rightarrow> js" where
  "encodeTrade t =
    obj [(''offers'', JArr (map encodeOffer (offers t))),
         (''nextRefreshAt'', JNum (nextRefreshAt t))]"

definition encodeEffects :: "Effects \<Rightarrow> js" where
  "encodeEffects e =
    obj (encodeOpt ''priceMultiplier'' (priceMultiplier e)
         @ encodeOpt ''quantityMultiplier'' (quantityMultiplier e)
         @ encodeOpt ''growthMultiplier'' (growthMultiplier e))"

definition encodeEvent :: "GameEvent \<Rightarrow> js" where
  "encodeEvent e =
    obj [(''id'', JStr (id_E e)),
         (''name'', JStr (name e)),
         (''description'', JStr (description e)),
         (''endsAt'', JNum (endsAt e)),
         (''effects'', encodeEffects (effects e))]"

definition encodeQuestType :: "QuestType \<Rightarrow> js" where
  "encodeQuestType t =
    (case t of Harvest \<Rightarrow> JStr ''harvest'' | Sell \<Rightarrow> JStr ''sell'' | Water \<Rightarrow> JStr ''water'')"

definition encodeReward :: "Reward \<Rightarrow> js" where
  "encodeReward r = obj (encodeOpt ''nugs'' (nugs_R r) @ encodeOpt ''buds'' (buds_R r))"

definition encodeQuest :: "Quest \<Rightarrow> js" where
  "encodeQuest q =
    obj [(''id'', JStr (id_Q q)),
         (''type'', encodeQuestType (type q)),
         (''description'', JStr (description_Q q)),
         (''goal'', JNum (goal q)),
         (''progress'', JNum (progress q)),
         (''reward'', encodeReward (reward q)),
         (''claimed'', JBool (claimed q))]"

definition encodeStats :: "Stats \<Rightarrow> js" where
  "encodeStats t =
    obj [(''totalHarvests'', JNum (totalHarvests t)),
         (''bestHarvest'', JNum (bestHarvest t)),
         (''totalNugsEarned'', JNum (totalNugsEarned t)),
         (''totalBudsHarvested'', JNum (totalBudsHarvested t)),
         (''totalBudsSold'', JNum (totalBudsSold t)),
         (''totalTrades'', JNum (totalTrades t))]"

definition encodeSettings :: "Settings \<Rightarrow> js" where
  "encodeSettings t =
    obj [(''sfxEnabled'', JBool (sfxEnabled t)),
         (''randomEventsEnabled'', JBool (randomEventsEnabled t))]"

definition encodeUpgrades :: "(string \<rightharpoonup> number) \<Rightarrow> js" where
  "encodeUpgrades u = JObj (\<lambda>k. map_option JNum (u k))"

definition encodeState :: "GameState \<Rightarrow> js" where
  "encodeState s =
    obj [(''nugs'', JNum (nugs s)),
         (''buds'', JNum (buds s)),
         (''slots'', JArr (map encodeSlot (slots s))),
         (''upgrades'', encodeUpgrades (upgrades s)),
         (''trade'', encodeTrade (trade s)),
         (''event'', (case event s of None \<Rightarrow> JUndefined | Some e \<Rightarrow> encodeEvent e)),
         (''quests'', JArr (map encodeQuest (quests s))),
         (''stats'', encodeStats (stats s)),
         (''settings'', encodeSettings (settings s))]"

text \<open>
  What \<open>localStorage.getItem(STORAGE_KEY)\<close> holds, seen through \<open>JSON.parse\<close>: nothing
  (\<open>null\<close>), a text on which \<open>JSON.parse\<close> throws (the empty text, the only falsy one, is such
  a text), or a text that parses to a value.
\<close>

datatype saved = NoSave | Unparseable | Parsed js

text \<open>\<open>localStorage.setItem(STORAGE_KEY, JSON.stringify(state))\<close>, in \<open>manualSave\<close> and in
  the autosave interval.\<close>

definition manualSave :: "GameState \<Rightarrow> saved" where
  "manualSave state = Parsed (JSON_copy (encodeState state))"

text \<open>Truthiness, and \<open>a || b\<close>.\<close>

definition truthy :: "js \<Rightarrow> bool" where
  "truthy v =
    (case v of JUndefined \<Rightarrow> False | JNull \<Rightarrow> False | JBool b \<Rightarrow> b | JNum n \<Rightarrow> n \<noteq> 0
     | JStr s \<Rightarrow> s \<noteq> [] | JArr xs \<Rightarrow> True | JObj m \<Rightarrow> True)"

definition orElse :: "js \<Rightarrow> js \<Rightarrow> js" where
  "orElse a b = (if truthy a then a else b)"

text \<open>\<open>parsed?.k\<close> for the property names read by the loader (\<open>stats\<close>, \<open>trade\<close>,
  \<open>quests\<close>), none of which is a property of arrays, strings, numbers or booleans.\<close>

definition getProp :: "js \<Rightarrow> string \<Rightarrow> js" where
  "getProp v k =
    (case v of JObj m \<Rightarrow> (case m k of None \<Rightarrow> JUndefined | Some x \<Rightarrow> x) | _ \<Rightarrow> JUndefined)"

text \<open>The properties that a spread \<open>{ ...v }\<close> copies: those of an object, the elements of
  an array under their indices, the characters of a string under theirs, and nothing for
  \<open>null\<close>, \<open>undefined\<close>, numbers and booleans.\<close>

definition props :: "js \<Rightarrow> (string \<Rightarrow> js option)" where
  "props v =
    (case v of
       JObj m \<Rightarrow> m
     | JArr xs \<Rightarrow> map_of (zip (map showNat [0..<length xs]) xs)
     | JStr s \<Rightarrow> map_of (zip (map showNat [0..<length s]) (map (\<lambda>c. JStr [c]) s))
     | _ \<Rightarrow> Map.empty)"

text \<open>The initialiser of \<open>useState\<close> in \<open>useGameState\<close>. A spread and \<open>?.\<close> never throw,
  so the only exception is the one of \<open>JSON.parse\<close>, which is caught.\<close>

definition loadState :: "saved \<Rightarrow> js" where
  "loadState saved =
    (case saved of
       NoSave \<Rightarrow> encodeState INITIAL_STATE
     | Unparseable \<Rightarrow> encodeState INITIAL_STATE
     | Parsed parsed \<Rightarrow>
         JObj ((props (encodeState INITIAL_STATE) ++ props parsed)
           (''stats'' \<mapsto> JObj (props (encodeStats (stats INITIAL_STATE))
                                 ++ props (orElse (getProp parsed ''stats'') (obj []))),
            ''trade'' \<mapsto> JObj (props (encodeTrade (trade INITIAL_STATE))
                                 ++ props (orElse (getProp parsed ''trade'') (obj []))),
            ''quests'' \<mapsto> orElse (getProp parsed ''quests'') (JArr (map encodeQuest DEFAULT_QUESTS)))))"

section \<open>Slot operations\<close>

text \<open>
  \<open>newSlots[slotIndex] = v\<close> on a copy of the slot array. A write beyond the end lengthens
  the array and leaves holes between the old end and the written index.
\<close>

definition arraySet :: "nat \<Rightarrow> Slot \<Rightarrow> Slot list \<Rightarrow> Slot list" where
  "arraySet i v xs =
    (if i < length xs then xs[i := v] else xs @ replicate (i - length xs) Hole @ [v])"

text \<open>\<open>nowId\<close> and \<open>nowPlanted\<close> are the values of the two calls of \<open>Date.now()\<close>.\<close>

definition plantSeed ::
  "nat \<Rightarrow> string \<Rightarrow> SoilType \<Rightarrow> nat \<Rightarrow> nat \<Rightarrow> GameState \<Rightarrow> GameState" where
  "plantSeed slotIndex strain soil nowId nowPlanted prev =
    (let newSlots = arraySet slotIndex
           (Planted \<lparr>id_P = ''plant-'' @ showNat nowId @ ''-'' @ showNat slotIndex,
                  strainId = strain,
                  phaseIndex = 0,
                  elapsedInPhase = 0,
                  plantedAt = of_nat nowPlanted,
                  modifiers = \<lparr>waterStacks = 0, fertilizerApplied = False, soilType = soil,
                                lastWaterTime = 0, lastFertilizerTime = 0,
                                qualityMultiplier = 1\<rparr>\<rparr>)
           (slots prev)
     in prev\<lparr>slots := newSlots\<rparr>)"

definition removePlant :: "nat \<Rightarrow> GameState \<Rightarrow> GameState" where
  "removePlant slotIndex prev = prev\<lparr>slots := arraySet slotIndex Null (slots prev)\<rparr>"

section \<open>Example states\<close>

text \<open>Concrete states on which the theorems below are instantiated.\<close>

definition tradeExample :: GameState where
  "tradeExample = INITIAL_STATE
     \<lparr>buds := 50,
      trade := \<lparr>offers = [\<lparr>id_O = ''offer-0-0'', quantity = 10, pricePerBud = 25 / 10\<rparr>,
                          \<lparr>id_O = ''offer-0-1'', quantity = 80, pricePerBud = 9 / 2\<rparr>],
                nextRefreshAt = 30000\<rparr>\<rparr>"


definition zeroDraws :: "nat \<Rightarrow> number" where
  "zeroDraws k = 0"





definition examplePhases :: "Phase list" where
  "examplePhases =
    map (\<lambda>n. \<lparr>name_Ph = n, duration = 2, waterRecommended = False, fertilizerRecommended = False\<rparr>)
      [''germination'', ''seedling'', ''veg'', ''preflower'', ''flower'', ''harvest'']"

definition exampleLogic :: "unit PlantLogic" where
  "exampleLogic = \<lparr>getStrain = (\<lambda>sid. if sid = ''og-kush'' then Some () else None),
                    getTimeMultiplier = (\<lambda>sid. 1)\<rparr>"

definition examplePlant :: Plant where
  "examplePlant =
    \<lparr>id_P = ''plant-0-0'', strainId = ''og-kush'', phaseIndex = 4, elapsedInPhase = 0,
     plantedAt = 0,
     modifiers = \<lparr>waterStacks = 0, fertilizerApplied = False, soilType = Basic,
                   lastWaterTime = 0, lastFertilizerTime = 0, qualityMultiplier = 1\<rparr>\<rparr>"

definition mysticFogExample :: GameState where
  "mysticFogExample =
     triggerRandomEvent 0 (1 / 4) (INITIAL_STATE\<lparr>slots := [Planted examplePlant, Null]\<rparr>)"

definition oldSave :: js where
  "oldSave =
    obj [(''nugs'', JNum 42),
         (''stats'', obj [(''totalHarvests'', JNum 7)]),
         (''trade'', obj [(''nextRefreshAt'', JNum 5000)])]"

section \<open>Facts about the library functions\<close>

lemma roundEven_bounds: "\<lfloor>x\<rfloor> \<le> roundEven x" "roundEven x \<le> \<lfloor>x\<rfloor> + 1"
  by (simp_all add: roundEven_def)

lemma roundEven_of_int [simp]: "roundEven (of_int n) = n"
  by (simp add: roundEven_def)

lemma roundEven_mono: "x \<le> y \<Longrightarrow> roundEven x \<le> roundEven y"
proof -
  assume xy: "x \<le> y"
  then have f: "\<lfloor>x\<rfloor> \<le> \<lfloor>y\<rfloor>" by (rule floor_mono)
  show ?thesis
  proof (cases "\<lfloor>x\<rfloor> = \<lfloor>y\<rfloor>")
    case True
    with xy show ?thesis by (auto simp add: roundEven_def)
  next
    case False
    with f have "\<lfloor>x\<rfloor> + 1 \<le> \<lfloor>y\<rfloor>" by simp
    with roundEven_bounds(2)[of x] roundEven_bounds(1)[of y] show ?thesis by linarith
  qed
qed

lemma roundEven_error: "\<bar>of_int (roundEven x) - x\<bar> \<le> 1 / 2"
  unfolding roundEven_def by (auto simp add: abs_le_iff)

lemma roundEven_le_int: "x \<le> of_int n \<Longrightarrow> roundEven x \<le> n"
  using roundEven_mono[of x "of_int n"] by simp

lemma roundEven_ge_int: "of_int n \<le> x \<Longrightarrow> n \<le> roundEven x"
  using roundEven_mono[of "of_int n" x] by simp

lemma ulp_pos: "0 < ulp x"
  by (simp add: ulp_def)

lemma expo_bounds:
  assumes "x \<noteq> 0"
  shows "2 powr of_int (expo x) \<le> \<bar>x\<bar>" and "\<bar>x\<bar> < 2 powr (of_int (expo x) + 1)"
proof -
  have pos: "0 < \<bar>x\<bar>" using assms by simp
  have eq: "2 powr (log 2 \<bar>x\<bar>) = \<bar>x\<bar>" using pos by simp
  have "of_int (expo x) \<le> log 2 \<bar>x\<bar>" by (simp add: expo_def)
  then have "2 powr of_int (expo x) \<le> 2 powr (log 2 \<bar>x\<bar>)" by (simp only: powr_le_cancel_iff) 
  with eq show "2 powr of_int (expo x) \<le> \<bar>x\<bar>" by simp
  have "log 2 \<bar>x\<bar> < of_int (expo x) + 1" unfolding expo_def by linarith
  then have "2 powr (log 2 \<bar>x\<bar>) < 2 powr (of_int (expo x) + 1)" by (simp only: powr_less_cancel_iff)
  with eq show "\<bar>x\<bar> < 2 powr (of_int (expo x) + 1)" by simp
qed

lemma expo_eqI:
  assumes "2 powr of_int n \<le> \<bar>x\<bar>" "\<bar>x\<bar> < 2 powr (of_int n + 1)"
  shows "expo x = n"
proof -
  have pos: "0 < \<bar>x\<bar>" using assms(1) powr_gt_zero[of 2 "of_int n"] by linarith
  have "of_int n \<le> log 2 \<bar>x\<bar>" using assms(1) pos by (simp add: le_log_iff)
  moreover have "log 2 \<bar>x\<bar> < of_int n + 1" using assms(2) pos by (simp add: log_less_iff)
  ultimately show ?thesis unfolding expo_def by linarith
qed

lemma roundEven_minus: "roundEven (- x) = - roundEven x"
proof (cases "x = of_int \<lfloor>x\<rfloor>")
  case True
  then obtain n where "x = of_int n" ..
  then have "- x = of_int (- n)" by simp
  then show ?thesis unfolding \<open>x = of_int n\<close> by (simp only: roundEven_of_int of_int_minus[symmetric])
next
  case False
  then have lt: "of_int \<lfloor>x\<rfloor> < x" using of_int_floor_le[of x] by linarith
  have "x < of_int \<lfloor>x\<rfloor> + 1" by linarith
  then have fm: "\<lfloor>- x\<rfloor> = - \<lfloor>x\<rfloor> - 1" using lt by (intro floor_unique) (simp_all, linarith+)
  have "even (- \<lfloor>x\<rfloor> - 1) \<longleftrightarrow> odd \<lfloor>x\<rfloor>" by simp
  then show ?thesis
    unfolding roundEven_def fm by (auto simp add: algebra_simps)
qed

lemma expo_minus [simp]: "expo (- x) = expo x"
  by (simp add: expo_def)

lemma ulp_minus [simp]: "ulp (- x) = ulp x"
  by (simp add: ulp_def)

lemma fl_minus [simp]: "fl (- x) = - fl x"
  by (simp add: fl_def roundEven_minus)

lemma fl_0 [simp]: "fl 0 = 0"
  by (simp add: fl_def)

lemma scaled_bounds:
  assumes "0 < x"
  shows "2 ^ 52 \<le> x / ulp x" and "x / ulp x < 2 ^ 53"
proof -
  have x: "x \<noteq> 0" "\<bar>x\<bar> = x" using assms by simp_all
  have u: "x / ulp x = x * 2 powr (52 - of_int (expo x))"
    by (simp add: ulp_def powr_diff field_simps)
  have p: "0 < 2 powr (52 - real_of_int (expo x))" by simp
  have "2 powr of_int (expo x) * 2 powr (52 - of_int (expo x)) \<le> x * 2 powr (52 - of_int (expo x))"
    using expo_bounds(1)[OF x(1)] x(2) p by (simp only: mult_le_cancel_right_pos)
  moreover have "2 powr of_int (expo x) * 2 powr (52 - of_int (expo x)) = (2::real) powr 52"
    by (simp add: powr_add[symmetric])
  ultimately show "2 ^ 52 \<le> x / ulp x" unfolding u by simp
  have "x * 2 powr (52 - of_int (expo x)) < 2 powr (of_int (expo x) + 1) * 2 powr (52 - of_int (expo x))"
    using expo_bounds(2)[OF x(1)] x(2) p by (simp only: mult_less_cancel_right_pos)
  moreover have "2 powr (of_int (expo x) + 1) * 2 powr (52 - of_int (expo x)) = (2::real) powr 53"
    by (simp add: powr_add[symmetric])
  ultimately show "x / ulp x < 2 ^ 53" unfolding u by simp
qed

lemma fl_pos_bounds:
  assumes "0 < x"
  shows "2 powr of_int (expo x) \<le> fl x" and "fl x \<le> 2 powr (of_int (expo x) + 1)"
proof -
  have a: "(2::int) ^ 52 \<le> roundEven (x / ulp x)"
    using scaled_bounds(1)[OF assms] by (intro roundEven_ge_int) simp
  have b: "roundEven (x / ulp x) \<le> (2::int) ^ 53"
    using scaled_bounds(2)[OF assms] by (intro roundEven_le_int) simp
  have f: "fl x = of_int (roundEven (x / ulp x)) * ulp x" using assms by (simp add: fl_def)
  have lo: "(2::real) ^ 52 * ulp x = 2 powr of_int (expo x)"
    by (simp add: ulp_def powr_diff)
  have hi: "(2::real) ^ 53 * ulp x = 2 powr (of_int (expo x) + 1)"
    by (simp add: ulp_def powr_diff powr_add)
  have "(2::real) ^ 52 \<le> of_int (roundEven (x / ulp x))" using a by (metis of_int_le_iff of_int_numeral of_int_power)
  then have "2 ^ 52 * ulp x \<le> of_int (roundEven (x / ulp x)) * ulp x"
    using ulp_pos[of x] by (simp only: mult_le_cancel_right_pos)
  then show "2 powr of_int (expo x) \<le> fl x" unfolding f lo .
  have "of_int (roundEven (x / ulp x)) \<le> (2::real) ^ 53" using b by (metis of_int_le_iff of_int_numeral of_int_power)
  then have "of_int (roundEven (x / ulp x)) * ulp x \<le> 2 ^ 53 * ulp x"
    using ulp_pos[of x] by (simp only: mult_le_cancel_right_pos)
  then show "fl x \<le> 2 powr (of_int (expo x) + 1)" unfolding f hi .
qed

lemma fl_pos: "0 < x \<Longrightarrow> 0 < fl x"
  using fl_pos_bounds(1)[of x] powr_gt_zero[of 2 "of_int (expo x)"] by linarith

lemma fl_nonneg: "0 \<le> x \<Longrightarrow> 0 \<le> fl x"
  using fl_pos[of x] by (cases "x = 0") (simp_all add: less_eq_real_def)

lemma fl_nonpos: "x \<le> 0 \<Longrightarrow> fl x \<le> 0"
  using fl_nonneg[of "- x"] by (simp add: fl_minus)

lemma expo_mono:
  assumes "0 < x" "x \<le> y"
  shows "expo x \<le> expo y"
  unfolding expo_def using assms by (intro floor_mono) (simp add: log_le_cancel_iff)

lemma fl_mono_pos:
  assumes "0 < x" "x \<le> y"
  shows "fl x \<le> fl y"
proof (cases "expo x = expo y")
  case True
  then have u: "ulp x = ulp y" by (simp add: ulp_def)
  have "x / ulp y \<le> y / ulp y" using assms(2) ulp_pos[of y] by (simp add: divide_right_mono)
  then have "roundEven (x / ulp y) \<le> roundEven (y / ulp y)" by (rule roundEven_mono)
  then have "of_int (roundEven (x / ulp y)) * ulp y \<le> of_int (roundEven (y / ulp y)) * ulp y"
    using ulp_pos[of y] by (simp add: mult_right_mono)
  then show ?thesis using assms by (simp add: fl_def u)
next
  case False
  with expo_mono[OF assms] have "expo x + 1 \<le> expo y" by simp
  then have "(2::real) powr (of_int (expo x) + 1) \<le> 2 powr of_int (expo y)"
    by simp
  moreover have "0 < y" using assms by simp
  ultimately show ?thesis
    using fl_pos_bounds(2)[OF assms(1)] fl_pos_bounds(1)[of y] by linarith
qed

lemma fl_mono: "x \<le> y \<Longrightarrow> fl x \<le> fl y"
proof -
  assume xy: "x \<le> y"
  consider "0 < x" | "x \<le> 0" "0 \<le> y" | "y < 0" by linarith
  then show ?thesis
  proof cases
    case 1
    then show ?thesis using xy by (rule fl_mono_pos)
  next
    case 2
    then show ?thesis using fl_nonpos[of x] fl_nonneg[of y] by linarith
  next
    case 3
    then have "0 < - y" "- y \<le> - x" using xy by simp_all
    then have "fl (- y) \<le> fl (- x)" by (rule fl_mono_pos)
    then show ?thesis by (simp add: fl_minus)
  qed
qed

lemma fl_error: "\<bar>fl x - x\<bar> \<le> \<bar>x\<bar> / 2 ^ 53"
proof (cases "x = 0")
  case True
  then show ?thesis by simp
next
  case False
  have u: "0 < ulp x" by (rule ulp_pos)
  have "fl x - x = (of_int (roundEven (x / ulp x)) - x / ulp x) * ulp x"
    using False u by (simp add: fl_def field_simps)
  then have "\<bar>fl x - x\<bar> = \<bar>of_int (roundEven (x / ulp x)) - x / ulp x\<bar> * ulp x"
    using u by (simp add: abs_mult)
  also have "\<dots> \<le> 1 / 2 * ulp x"
    using roundEven_error[of "x / ulp x"] u by (simp only: mult_le_cancel_right_pos)
  also have "ulp x = 2 powr of_int (expo x) / 2 ^ 52"
    by (simp add: ulp_def powr_diff)
  also have "1 / 2 * (2 powr of_int (expo x) / 2 ^ 52) \<le> 1 / 2 * (\<bar>x\<bar> / 2 ^ 52)"
    using expo_bounds(1)[OF False] by (simp add: divide_right_mono)
  finally show ?thesis by simp
qed

lemma fl_exact_pos:
  assumes "0 < m" "m < 2 ^ 53"
  shows "fl (of_int m * 2 powr of_int k) = of_int m * 2 powr of_int k"
proof -
  let ?x = "of_int m * 2 powr of_int k :: real"
  have xpos: "0 < ?x" using assms(1) by simp
  then have x0: "?x \<noteq> 0" and ax: "\<bar>?x\<bar> = ?x" using assms(1) by simp_all
  have "(of_int m :: real) < 2 ^ 53" using assms(2) by (metis of_int_less_iff of_int_numeral of_int_power)
  then have "?x < 2 ^ 53 * 2 powr of_int k" by simp
  also have "\<dots> = 2 powr (53 + of_int k)" by (simp add: powr_add)
  finally have "(2::real) powr of_int (expo ?x) < 2 powr (53 + of_int k)"
    using expo_bounds(1)[OF x0] ax by linarith
  then have "real_of_int (expo ?x) < 53 + of_int k" by simp
  then have e: "expo ?x \<le> 52 + k" by linarith
  define j where "j = nat (52 + k - expo ?x)"
  have j: "real j = of_int k + 52 - of_int (expo ?x)" using e by (simp add: j_def)
  have "?x / ulp ?x = of_int m * 2 powr (of_int k - (of_int (expo ?x) - 52))"
    unfolding ulp_def by (simp add: powr_diff)
  also have "of_int k - (of_int (expo ?x) - 52) = real j" using j by simp
  also have "of_int m * 2 powr (real j) = of_int (m * 2 ^ j)" by (simp add: powr_realpow)
  finally have s: "?x / ulp ?x = of_int (m * 2 ^ j)" .
  have "fl ?x = of_int (roundEven (?x / ulp ?x)) * ulp ?x" using x0 by (simp add: fl_def)
  also have "\<dots> = (?x / ulp ?x) * ulp ?x" unfolding s roundEven_of_int ..
  also have "\<dots> = ?x" using ulp_pos[of ?x] by simp
  finally show ?thesis .
qed

lemma fl_exact:
  assumes "\<bar>m\<bar> < 2 ^ 53"
  shows "fl (of_int m * 2 powr of_int k) = of_int m * 2 powr of_int k"
proof -
  consider "0 < m" | "m = 0" | "m < 0" by linarith
  then show ?thesis
  proof cases
    case 1
    then show ?thesis using assms by (intro fl_exact_pos) simp_all
  next
    case 2
    then show ?thesis by simp
  next
    case 3
    then have "fl (of_int (- m) * 2 powr of_int k) = of_int (- m) * 2 powr of_int k"
      using assms by (intro fl_exact_pos) simp_all
    then have "fl (- (of_int m * 2 powr of_int k)) = - (of_int m * 2 powr of_int k)" by simp
    then show ?thesis by (simp only: fl_minus neg_equal_iff_equal)
  qed
qed

lemma fl_of_int: "\<bar>m\<bar> < 2 ^ 53 \<Longrightarrow> fl (of_int m) = of_int m"
  using fl_exact[of m 0] by simp

lemma fl_dyadic: "\<bar>m\<bar> < 2 ^ 53 \<Longrightarrow> fl (of_int m / 2 ^ k) = of_int m / 2 ^ k"
  using fl_exact[of m "- int k"] by (simp add: powr_minus powr_realpow field_simps)

lemma fl_numeral [simp]:
  "(numeral n :: int) < 9007199254740992 \<Longrightarrow> fl (numeral n) = numeral n"
  using fl_of_int[of "numeral n"] by simp

lemma fl_1 [simp]: "fl 1 = 1"
  using fl_of_int[of 1] by simp

lemma fl_half [simp]: "fl (1 / 2) = 1 / 2"
  using fl_dyadic[of 1 1] by simp

text \<open>The value of \<open>fl\<close> at a number whose binade is known.\<close>

lemma fl_eval_ge1:
  assumes "2 ^ e \<le> \<bar>x\<bar>" "\<bar>x\<bar> < 2 * 2 ^ e"
  shows "fl x = of_int (roundEven (x * 2 ^ 52 / 2 ^ e)) * 2 ^ e / 2 ^ 52"
proof -
  have "expo x = int e"
    using assms by (intro expo_eqI) (simp_all add: powr_realpow powr_add)
  then have u: "ulp x = 2 ^ e / 2 ^ 52" by (simp add: ulp_def powr_diff powr_realpow)
  have "0 < (2::real) ^ e" by simp
  with assms(1) have "0 < \<bar>x\<bar>" by linarith
  then have "x \<noteq> 0" by simp
  then show ?thesis by (simp add: fl_def u)
qed

lemma fl_eval_lt1:
  assumes "1 \<le> \<bar>x\<bar> * 2 ^ e" "\<bar>x\<bar> * 2 ^ e < 2"
  shows "fl x = of_int (roundEven (x * 2 ^ 52 * 2 ^ e)) / (2 ^ e * 2 ^ 52)"
proof -
  have p: "0 < (2::real) ^ e" by simp
  have lo: "2 powr of_int (- int e) = 1 / (2::real) ^ e"
    by (simp add: powr_minus powr_realpow field_simps)
  have "(2::real) powr (of_int (- int e) + 1) = 2 powr of_int (- int e) * 2 powr 1"
    by (rule powr_add)
  then have hi: "2 powr (of_int (- int e) + 1) = 2 / (2::real) ^ e"
    unfolding lo by simp
  have "1 / 2 ^ e \<le> \<bar>x\<bar>" using assms(1) p by (simp add: pos_divide_le_eq)
  moreover have "\<bar>x\<bar> < 2 / 2 ^ e" using assms(2) p by (simp add: pos_less_divide_eq)
  ultimately have "expo x = - int e"
    unfolding lo[symmetric] hi[symmetric] by (rule expo_eqI)
  then have u: "ulp x = 1 / (2 ^ e * 2 ^ 52)"
    by (simp add: ulp_def powr_diff powr_minus powr_realpow field_simps)
  have "x \<noteq> 0" using assms(1) by auto
  then show ?thesis by (simp add: fl_def u field_simps)
qed

lemma roundEven_eval:
  "roundEven x =
    (if 2 * x < of_int (2 * \<lfloor>x\<rfloor> + 1) then \<lfloor>x\<rfloor>
     else if of_int (2 * \<lfloor>x\<rfloor> + 1) < 2 * x then \<lfloor>x\<rfloor> + 1
     else if even \<lfloor>x\<rfloor> then \<lfloor>x\<rfloor> else \<lfloor>x\<rfloor> + 1)"
  unfolding roundEven_def by (simp add: algebra_simps)

lemma fl_4_10: "fl (4 / 10) = 3602879701896397 / 2 ^ 53"
proof -
  have "fl (4 / 10) = of_int (roundEven ((4 / 10) * 2 ^ 52 * 2 ^ 2)) / (2 ^ 2 * 2 ^ 52)"
    by (rule fl_eval_lt1) simp_all
  also have "roundEven ((4 / 10) * 2 ^ 52 * 2 ^ 2) = 7205759403792794"
    by (simp add: roundEven_eval)
  finally show ?thesis by simp
qed

lemma fl_12_10: "fl (12 / 10) = 5404319552844595 / 2 ^ 52"
proof -
  have "fl (12 / 10) = of_int (roundEven ((12 / 10) * 2 ^ 52 / 2 ^ 0)) * 2 ^ 0 / 2 ^ 52"
    by (rule fl_eval_ge1) simp_all
  also have "roundEven ((12 / 10) * 2 ^ 52 / 2 ^ 0) = 5404319552844595"
    by (simp add: roundEven_eval)
  finally show ?thesis by simp
qed


lemma haggle_error: "\<bar>fl (fl (p * fl (12 / 10)) * 10) - 12 * p\<bar> \<le> \<bar>p\<bar> / 2 ^ 47"
proof -
  define c :: real where "c = 5404319552844595 / 4503599627370496"
  define a where "a = fl (p * c)"
  define b where "b = fl (a * 10)"
  define P where "P = \<bar>p\<bar>"
  have c: "fl (12 / 10) = c" unfolding fl_12_10 c_def by simp
  have pc: "\<bar>p * c\<bar> = P * c" unfolding P_def c_def by (simp add: abs_mult)
  have "\<bar>a - p * c\<bar> \<le> \<bar>p * c\<bar> / 2 ^ 53" unfolding a_def by (rule fl_error)
  then have ea: "\<bar>a - p * c\<bar> \<le> P * c / 9007199254740992" unfolding pc by simp
  have "\<bar>b - a * 10\<bar> \<le> \<bar>a * 10\<bar> / 2 ^ 53" unfolding b_def by (rule fl_error)
  then have eb: "\<bar>b - a * 10\<bar> \<le> \<bar>a\<bar> * 10 / 9007199254740992" by (simp add: abs_mult)
  have ec: "\<bar>p * c - 12 / 10 * p\<bar> \<le> P / 18014398509481984"
    unfolding P_def c_def by (cases "0 \<le> p") simp_all
  have P0: "0 \<le> P" unfolding P_def by simp
  have Pc: "P * c \<le> P * 2" using P0 unfolding c_def by simp
  have A: "\<bar>a\<bar> \<le> 3 * P" using ea pc Pc P0 by linarith
  have eb': "\<bar>b - a * 10\<bar> \<le> 30 * P / 9007199254740992" using eb A by linarith
  have e1: "\<bar>a * 10 - 12 * p\<bar> \<le> 25 * P / 9007199254740992" using ea ec Pc P0 by linarith
  have "\<bar>b - 12 * p\<bar> \<le> P / 140737488355328"
    using eb' e1 P0 by linarith
  then show ?thesis unfolding c b_def a_def P_def by simp
qed

lemma findIndex_Some:
  "findIndex P xs = Some i \<Longrightarrow> i < length xs \<and> P (xs ! i) \<and> (\<forall>j<i. \<not> P (xs ! j))"
proof (induction xs arbitrary: i)
  case Nil
  then show ?case by simp
next
  case (Cons x xs)
  show ?case
  proof (cases "P x")
    case True
    with Cons.prems show ?thesis by simp
  next
    case False
    with Cons.prems obtain k where k: "findIndex P xs = Some k" "i = Suc k"
      by auto
    from Cons.IH[OF k(1)] False k(2) show ?thesis
      by (auto simp: nth_Cons split: nat.splits)
  qed
qed

lemma Math_round_nearest: "\<bar>Math_round x - x\<bar> \<le> 1 / 2"
  unfolding Math_round_def by linarith












lemma phaseDuration_nonneg:
  assumes "\<forall>ph\<in>set PHASES. 0 \<le> duration ph"
      and "\<forall>sid. 0 \<le> getTimeMultiplier logic sid"
      and "phaseIndex plant < length PHASES"
  shows "0 \<le> phaseDuration PHASES logic plant"
proof -
  have "0 \<le> duration (PHASES ! phaseIndex plant)"
    using assms(1,3) by simp
  moreover have "0 \<le> getTimeMultiplier logic (strainId plant)"
    using assms(2) by simp
  ultimately show ?thesis
    by (simp add: phaseDuration_def Let_def)
qed

lemma phaseDuration_onUpdate:
  "phaseDuration PHASES logic (onUpdate e k plant) = phaseDuration PHASES logic (plant\<lparr>phaseIndex := k\<rparr>)"
  by (simp add: phaseDuration_def onUpdate_def)

lemma tick_step:
  assumes durations: "\<forall>ph\<in>set PHASES. 0 \<le> duration ph"
      and mult: "\<forall>sid. 0 \<le> getTimeMultiplier logic sid"
      and idx: "phaseIndex plant < length PHASES"
      and stored: "0 \<le> elapsedInPhase plant" "elapsedInPhase plant \<le> phaseDuration PHASES logic plant"
      and loc: "0 \<le> localElapsed"
  shows "\<exists>plant' localElapsed'.
           tick PHASES logic (plant, localElapsed) = Inr (plant', localElapsed')
         \<and> phaseIndex plant' < length PHASES
         \<and> 0 \<le> elapsedInPhase plant'
         \<and> elapsedInPhase plant' \<le> phaseDuration PHASES logic plant'
         \<and> 0 \<le> localElapsed'
         \<and> phaseIndex plant \<le> phaseIndex plant'
         \<and> phaseIndex plant' \<le> Suc (phaseIndex plant)"
proof (cases "getStrain logic (strainId plant)")
  case None
  then have "tick PHASES logic (plant, localElapsed) = Inr (plant, localElapsed)"
    by (simp add: tick_def)
  with idx stored loc show ?thesis by simp
next
  case (Some strain)
  show ?thesis
  proof (cases "localElapsed + 1 \<ge> phaseDuration PHASES logic plant")
    case True
    show ?thesis
    proof (cases "phaseIndex plant + 1 < length PHASES")
      case next_phase: True
      let ?p = "onUpdate 0 (phaseIndex plant + 1) plant"
      have res: "tick PHASES logic (plant, localElapsed) = Inr (?p, 0)"
        using Some idx True next_phase by (simp add: tick_def Let_def)
      have i: "phaseIndex ?p < length PHASES" using next_phase by (simp add: onUpdate_def)
      have "0 \<le> phaseDuration PHASES logic ?p"
        by (rule phaseDuration_nonneg[OF durations mult i])
      then show ?thesis
        using res i by (simp add: onUpdate_def)
    next
      case False
      have "tick PHASES logic (plant, localElapsed) = Inr (plant, localElapsed + 1)"
        using Some idx True False by (simp add: tick_def Let_def)
      with idx stored loc show ?thesis by simp
    qed
  next
    case False
    let ?p = "onUpdate (localElapsed + 1) (phaseIndex plant) plant"
    have res: "tick PHASES logic (plant, localElapsed) = Inr (?p, localElapsed + 1)"
      using Some idx False by (simp add: tick_def Let_def)
    have d: "phaseDuration PHASES logic ?p = phaseDuration PHASES logic plant"
      by (simp add: phaseDuration_def onUpdate_def)
    show ?thesis
      using res idx loc False unfolding d[symmetric] by (simp add: onUpdate_def d)
  qed
qed

lemma ticks_add:
  "ticks PHASES logic (m + k) view =
     (case ticks PHASES logic m view of Inl e \<Rightarrow> Inl e | Inr view' \<Rightarrow> ticks PHASES logic k view')"
  by (induction m arbitrary: view) (auto split: sum.splits)

lemma ticks_invariant:
  assumes durations: "\<forall>ph\<in>set PHASES. 0 \<le> duration ph"
      and mult: "\<forall>sid. 0 \<le> getTimeMultiplier logic sid"
  shows "phaseIndex plant < length PHASES \<Longrightarrow> 0 \<le> elapsedInPhase plant \<Longrightarrow>
         elapsedInPhase plant \<le> phaseDuration PHASES logic plant \<Longrightarrow> 0 \<le> localElapsed \<Longrightarrow>
         \<exists>plant' localElapsed'.
           ticks PHASES logic n (plant, localElapsed) = Inr (plant', localElapsed')
         \<and> phaseIndex plant' < length PHASES
         \<and> 0 \<le> elapsedInPhase plant'
         \<and> elapsedInPhase plant' \<le> phaseDuration PHASES logic plant'
         \<and> 0 \<le> localElapsed'
         \<and> phaseIndex plant \<le> phaseIndex plant'"
proof (induction n arbitrary: plant localElapsed)
  case 0
  then show ?case by simp
next
  case (Suc n)
  from tick_step[OF durations mult Suc.prems]
  obtain p1 l1 where s: "tick PHASES logic (plant, localElapsed) = Inr (p1, l1)"
    and i: "phaseIndex p1 < length PHASES" "0 \<le> elapsedInPhase p1"
      "elapsedInPhase p1 \<le> phaseDuration PHASES logic p1" "0 \<le> l1"
    and m: "phaseIndex plant \<le> phaseIndex p1"
    by blast
  from Suc.IH[OF i]
  obtain p2 l2 where r: "ticks PHASES logic n (p1, l1) = Inr (p2, l2)"
    and j: "phaseIndex p2 < length PHASES" "0 \<le> elapsedInPhase p2"
      "elapsedInPhase p2 \<le> phaseDuration PHASES logic p2" "0 \<le> l2"
    and m2: "phaseIndex p1 \<le> phaseIndex p2"
    by blast
  have "ticks PHASES logic (Suc n) (plant, localElapsed) = Inr (p2, l2)"
    using s r by simp
  moreover have "phaseIndex plant \<le> phaseIndex p2" using m m2 by simp
  ultimately show ?case using j by blast
qed

lemma examplePhases_nth:
  "length examplePhases = 6"
  "duration (examplePhases ! 4) = 2"
  "duration (examplePhases ! 5) = 2"
  by (simp_all add: examplePhases_def)

lemma examplePhases_durations: "\<forall>ph\<in>set examplePhases. 0 \<le> duration ph"
  by (simp add: examplePhases_def)

lemma JSON_copy_encodeModifiers [simp]: "JSON_copy (encodeModifiers m) = encodeModifiers m"
  by (cases "soilType m")
     (simp_all add: encodeModifiers_def encodeSoilType_def obj_def fun_eq_iff dropUndefined_def)

lemma encodeModifiers_defined [simp]: "encodeModifiers m \<noteq> JUndefined"
  by (simp add: encodeModifiers_def obj_def)

lemma JSON_copy_encodePlant [simp]: "JSON_copy (encodePlant p) = encodePlant p"
  by (simp add: encodePlant_def obj_def fun_eq_iff dropUndefined_def)

lemma JSON_copy_encodeSlot [simp]: "JSON_copy (encodeSlot x) = encodeSlot x"
  by (cases x) (simp_all add: encodeSlot_def)

lemma encodeSlot_defined [simp]: "encodeSlot x = JUndefined \<longleftrightarrow> x = Hole"
  by (cases x) (simp_all add: encodeSlot_def encodePlant_def obj_def)

lemma JSON_copy_encodeOffer [simp]: "JSON_copy (encodeOffer x) = encodeOffer x"
  by (simp add: encodeOffer_def obj_def fun_eq_iff dropUndefined_def)

lemma encodeOffer_defined [simp]: "encodeOffer x \<noteq> JUndefined"
  by (simp add: encodeOffer_def obj_def)

lemma JSON_copy_encodeTrade [simp]: "JSON_copy (encodeTrade t) = encodeTrade t"
  by (simp add: encodeTrade_def obj_def fun_eq_iff dropUndefined_def undefinedToNull_def comp_def)

lemma encodeTrade_defined [simp]: "encodeTrade t \<noteq> JUndefined"
  by (simp add: encodeTrade_def obj_def)

lemma JSON_copy_encodeEffects [simp]: "JSON_copy (encodeEffects e) = encodeEffects e"
  by (cases "priceMultiplier e"; cases "quantityMultiplier e"; cases "growthMultiplier e")
     (simp_all add: encodeEffects_def encodeOpt_def obj_def fun_eq_iff dropUndefined_def)

lemma encodeEffects_defined [simp]: "encodeEffects e \<noteq> JUndefined"
  by (simp add: encodeEffects_def obj_def)

lemma JSON_copy_encodeEvent [simp]: "JSON_copy (encodeEvent e) = encodeEvent e"
  by (simp add: encodeEvent_def obj_def fun_eq_iff dropUndefined_def)

lemma encodeEvent_defined [simp]: "encodeEvent e \<noteq> JUndefined"
  by (simp add: encodeEvent_def obj_def)

lemma JSON_copy_encodeReward [simp]: "JSON_copy (encodeReward r) = encodeReward r"
  by (cases "nugs_R r"; cases "buds_R r")
     (simp_all add: encodeReward_def encodeOpt_def obj_def fun_eq_iff dropUndefined_def)

lemma encodeReward_defined [simp]: "encodeReward r \<noteq> JUndefined"
  by (simp add: encodeReward_def obj_def)

lemma JSON_copy_encodeQuest [simp]: "JSON_copy (encodeQuest q) = encodeQuest q"
  by (cases "type q")
     (simp_all add: encodeQuest_def encodeQuestType_def obj_def fun_eq_iff dropUndefined_def)

lemma encodeQuest_defined [simp]: "encodeQuest q \<noteq> JUndefined"
  by (simp add: encodeQuest_def obj_def)

lemma JSON_copy_encodeStats [simp]: "JSON_copy (encodeStats t) = encodeStats t"
  by (simp add: encodeStats_def obj_def fun_eq_iff dropUndefined_def)

lemma encodeStats_defined [simp]: "encodeStats t \<noteq> JUndefined"
  by (simp add: encodeStats_def obj_def)

lemma JSON_copy_encodeSettings [simp]: "JSON_copy (encodeSettings t) = encodeSettings t"
  by (simp add: encodeSettings_def obj_def fun_eq_iff dropUndefined_def)

lemma encodeSettings_defined [simp]: "encodeSettings t \<noteq> JUndefined"
  by (simp add: encodeSettings_def obj_def)

lemma JSON_copy_encodeUpgrades [simp]: "JSON_copy (encodeUpgrades u) = encodeUpgrades u"
proof -
  have "Option.bind (map_option JSON_copy (map_option JNum (u k))) dropUndefined
          = map_option JNum (u k)" for k
    by (cases "u k") (simp_all add: dropUndefined_def)
  then show ?thesis by (simp add: encodeUpgrades_def)
qed

lemma encodeUpgrades_defined [simp]: "encodeUpgrades u \<noteq> JUndefined"
  by (simp add: encodeUpgrades_def)

lemma JSON_copy_array:
  assumes "\<And>x. JSON_copy (f x) = f x" "\<And>x. x \<in> set xs \<Longrightarrow> f x \<noteq> JUndefined"
  shows "JSON_copy (JArr (map f xs)) = JArr (map f xs)"
  using assms by (simp add: undefinedToNull_def comp_def)

lemma JSON_copy_encodeState:
  assumes "Hole \<notin> set (slots s)"
  shows "JSON_copy (encodeState s) =
     JObj ((props (encodeState s))(''event'' := map_option encodeEvent (event s)))"
proof -
  have a: "JSON_copy (JArr (map encodeSlot (slots s))) = JArr (map encodeSlot (slots s))"
    using assms by (intro JSON_copy_array) auto
  have b: "JSON_copy (JArr (map encodeQuest (quests s))) = JArr (map encodeQuest (quests s))"
    by (rule JSON_copy_array) simp_all
  show ?thesis
    using a b
    by (cases "event s")
       (simp_all add: encodeState_def obj_def props_def fun_eq_iff dropUndefined_def del: JSON_copy.simps(6))
qed

lemma props_orElse_empty: "props (orElse v (obj [])) = props v"
  by (cases v) (auto simp add: orElse_def truthy_def props_def obj_def)

section \<open>Haggling (C2)\<close>

text \<open>
  Claim C2. For every state, every offer id and every random draw \<open>r\<close>, haggling has
  exactly one of two outcomes when the offer exists (\<open>findIndex\<close> finds it at position
  \<open>i\<close>). The haggle succeeds exactly when \<open>r\<close> is below the double \<open>0.4\<close>, which for a draw
  that is a double is the same as \<open>r < 0.4\<close>, the event of probability 0.4 for a draw uniform
  on \<open>[0, 1)\<close>; the call reports the success only if React has run the updater when the call
  returns (\<open>eager\<close>). On success the offer stays at its position, no other offer changes,
  the array keeps its length, and the price \<open>p\<close> becomes \<open>min 5 q\<close> where \<open>q\<close> is the double
  nearest to \<open>k / 10\<close> and \<open>k\<close> is \<open>12 p\<close> rounded to an integer, the product being computed
  in doubles with a relative error below \<open>2 ^ -47\<close>. This is stated for prices from
  \<open>- 2 ^ 1000\<close> upwards: below, the product overflows to \<open>-Infinity\<close>, outside the model; a
  product that overflows upwards is capped at 5 in the model as in the code. On failure the
  offer at position \<open>i\<close> is removed and the array is one shorter. The array length tells the
  two outcomes apart, so never both and never neither. Nothing but the offer array changes.
  If no offer has the id, the state is returned unchanged with \<open>False\<close>.
\<close>

theorem haggleTradeOffer_spec:
  "(findIndex (\<lambda>x. id_O x = offerId) (offers (trade s)) = None \<longrightarrow>
      haggleTradeOffer eager r offerId s = (s, False))
   \<and> (\<forall>i. findIndex (\<lambda>x. id_O x = offerId) (offers (trade s)) = Some i \<longrightarrow>
        (snd (haggleTradeOffer eager r offerId s) \<longleftrightarrow> eager \<and> r < fl (4 / 10))
      \<and> (fl r = r \<longrightarrow> (r < fl (4 / 10) \<longleftrightarrow> r < 4 / 10))
      \<and> fst (haggleTradeOffer eager r offerId s) =
          s\<lparr>trade := (trade s)\<lparr>offers := offers (trade (fst (haggleTradeOffer eager r offerId s)))\<rparr>\<rparr>
      \<and> (r < fl (4 / 10) \<longrightarrow>
            offers (trade (fst (haggleTradeOffer eager r offerId s))) =
              (offers (trade s))[i := (offers (trade s) ! i)
                \<lparr>pricePerBud := pricePerBud (offers (trade (fst (haggleTradeOffer eager r offerId s))) ! i)\<rparr>]
          \<and> id_O (offers (trade (fst (haggleTradeOffer eager r offerId s))) ! i) = offerId
          \<and> length (offers (trade (fst (haggleTradeOffer eager r offerId s)))) = length (offers (trade s))
          \<and> (- (2 ^ 1000) \<le> pricePerBud (offers (trade s) ! i) \<longrightarrow>
                pricePerBud (offers (trade (fst (haggleTradeOffer eager r offerId s))) ! i) =
                  min 5 (fl (of_int \<lfloor>fl (fl (pricePerBud (offers (trade s) ! i) * fl (12 / 10)) * 10) + 1 / 2\<rfloor> / 10))
              \<and> (\<exists>k::int. \<bar>of_int k - 12 * pricePerBud (offers (trade s) ! i)\<bar>
                            \<le> 1 / 2 + \<bar>pricePerBud (offers (trade s) ! i)\<bar> / 2 ^ 47
                    \<and> pricePerBud (offers (trade (fst (haggleTradeOffer eager r offerId s))) ! i)
                        = min 5 (fl (of_int k / 10)))))
      \<and> (\<not> r < fl (4 / 10) \<longrightarrow>
            offers (trade (fst (haggleTradeOffer eager r offerId s))) =
              take i (offers (trade s)) @ drop (Suc i) (offers (trade s))
          \<and> Suc (length (offers (trade (fst (haggleTradeOffer eager r offerId s))))) = length (offers (trade s)))
      \<and> (length (offers (trade (fst (haggleTradeOffer eager r offerId s)))) = length (offers (trade s))
           \<longleftrightarrow> Suc (length (offers (trade (fst (haggleTradeOffer eager r offerId s))))) \<noteq> length (offers (trade s))))"
proof (cases "findIndex (\<lambda>x. id_O x = offerId) (offers (trade s))")
  case None
  then show ?thesis by (simp add: haggleTradeOffer_def)
next
  case (Some k)
  note fi = findIndex_Some[OF Some]
  let ?os = "offers (trade s)"
  let ?p = "pricePerBud (?os ! k)"
  let ?b = "fl (fl (?p * fl (12 / 10)) * 10)"
  let ?q = "fl (Math_round ?b / 10)"
  have dbl: "fl r = r \<longrightarrow> (r < fl (4 / 10) \<longleftrightarrow> r < 4 / 10)"
  proof
    assume d: "fl r = r"
    have up: "(4 / 10 :: real) \<le> fl (4 / 10)" unfolding fl_4_10 by simp
    have "fl (4 / 10) \<le> r" if "4 / 10 \<le> r" using fl_mono[OF that] d by simp
    with up show "r < fl (4 / 10) \<longleftrightarrow> r < 4 / 10" by fastforce
  qed
  show ?thesis
  proof (cases "r < fl (4 / 10)")
    case True
    have res: "haggleTradeOffer eager r offerId s =
        (s\<lparr>trade := (trade s)\<lparr>offers := ?os[k := (?os ! k)\<lparr>pricePerBud := min 5 ?q\<rparr>]\<rparr>\<rparr>, eager)"
      using Some True by (simp add: haggleTradeOffer_def Let_def)
    have q2: "\<bar>of_int \<lfloor>?b + 1 / 2\<rfloor> - 12 * ?p\<bar> \<le> 1 / 2 + \<bar>?p\<bar> / 2 ^ 47"
      using Math_round_nearest[of ?b] haggle_error[of ?p] unfolding Math_round_def by linarith
    have ex: "\<exists>j::int. \<bar>of_int j - 12 * ?p\<bar> \<le> 1 / 2 + \<bar>?p\<bar> / 2 ^ 47
                \<and> min 5 ?q = min 5 (fl (of_int j / 10))"
      using q2 unfolding Math_round_def by blast
    show ?thesis
      using Some True fi ex dbl by (simp add: res Math_round_def)
  next
    case False
    have res: "haggleTradeOffer eager r offerId s =
        (s\<lparr>trade := (trade s)\<lparr>offers := take k ?os @ drop (Suc k) ?os\<rparr>\<rparr>, False)"
      using Some False by (simp add: haggleTradeOffer_def Let_def splice1_def)
    have len: "Suc (length (take k ?os @ drop (Suc k) ?os)) = length ?os"
      using fi by auto
    have pos: "0 < length ?os" using fi by auto
    show ?thesis
      using Some False pos fi dbl by (auto simp add: res)
  qed
qed

theorem haggleTradeOffer_spec_witness:
  "findIndex (\<lambda>x. id_O x = ''offer-0-0'') (offers (trade tradeExample)) = Some 0
   \<and> (1 / 4 :: real) < fl (4 / 10)
   \<and> fl (1 / 4) = 1 / 4
   \<and> - (2 ^ 1000) \<le> pricePerBud (offers (trade tradeExample) ! 0)
   \<and> haggleTradeOffer True (1 / 4) ''offer-0-0'' tradeExample =
       (tradeExample\<lparr>trade := \<lparr>offers = [\<lparr>id_O = ''offer-0-0'', quantity = 10, pricePerBud = 3\<rparr>,
                          \<lparr>id_O = ''offer-0-1'', quantity = 80, pricePerBud = 9 / 2\<rparr>],
                nextRefreshAt = 30000\<rparr>\<rparr>, True)
   \<and> \<not> snd (haggleTradeOffer False (1 / 4) ''offer-0-0'' tradeExample)
   \<and> \<not> (1 / 2 :: real) < fl (4 / 10)
   \<and> offers (trade (fst (haggleTradeOffer True (1 / 2) ''offer-0-0'' tradeExample))) =
        [\<lparr>id_O = ''offer-0-1'', quantity = 80, pricePerBud = 9 / 2\<rparr>]
   \<and> findIndex (\<lambda>x. id_O x = ''offer-9-9'') (offers (trade tradeExample)) = None
   \<and> haggleTradeOffer True (1 / 4) ''offer-9-9'' tradeExample = (tradeExample, False)"
proof -
  have h: "findIndex (\<lambda>x. id_O x = ''offer-0-0'') (offers (trade tradeExample)) = Some 0"
    by (simp add: tradeExample_def INITIAL_STATE_def)
  have n: "findIndex (\<lambda>x. id_O x = ''offer-9-9'') (offers (trade tradeExample)) = None"
    by (simp add: tradeExample_def INITIAL_STATE_def)
  have lt: "(1 / 4 :: real) < fl (4 / 10)" and ge: "\<not> (1 / 2 :: real) < fl (4 / 10)"
    unfolding fl_4_10 by simp_all
  have p: "pricePerBud (offers (trade tradeExample) ! 0) = 5 / 2"
    by (simp add: tradeExample_def INITIAL_STATE_def)
  have rg: "- (2 ^ 1000) \<le> pricePerBud (offers (trade tradeExample) ! 0)"
    unfolding p by simp
  have m: "fl (5 / 2 * fl (12 / 10)) = 3"
  proof -
    have "fl (5 / 2 * fl (12 / 10)) =
        of_int (roundEven (5 / 2 * fl (12 / 10) * 2 ^ 52 / 2 ^ 1)) * 2 ^ 1 / 2 ^ 52"
      unfolding fl_12_10 by (rule fl_eval_ge1) simp_all
    also have "roundEven (5 / 2 * fl (12 / 10) * 2 ^ 52 / 2 ^ 1) = 6755399441055744"
      unfolding fl_12_10 by (simp add: roundEven_eval)
    finally show ?thesis by simp
  qed
  note a = haggleTradeOffer_spec[of "''offer-0-0''" tradeExample True "1 / 4", THEN conjunct2, rule_format, OF h]
  note a' = haggleTradeOffer_spec[of "''offer-0-0''" tradeExample False "1 / 4", THEN conjunct2, rule_format, OF h]
  note b = haggleTradeOffer_spec[of "''offer-0-0''" tradeExample True "1 / 2", THEN conjunct2, rule_format, OF h]
  note c = haggleTradeOffer_spec[of "''offer-9-9''" tradeExample True "1 / 4", THEN conjunct1, rule_format, OF n]
  note s = a[THEN conjunct2, THEN conjunct2, THEN conjunct2, THEN conjunct1, rule_format, OF lt]
  have a1: "snd (haggleTradeOffer True (1 / 4) ''offer-0-0'' tradeExample)"
    using a[THEN conjunct1] lt by simp
  have dq: "fl (1 / 4) = 1 / 4" using fl_dyadic[of 1 2] by simp
  have "(1 / 4 :: real) < fl (4 / 10) \<longleftrightarrow> (1 / 4 :: real) < 4 / 10"
    using a[THEN conjunct2, THEN conjunct1, rule_format, OF dq] .
  have a0: "\<not> snd (haggleTradeOffer False (1 / 4) ''offer-0-0'' tradeExample)"
    using a'[THEN conjunct1] by simp
  have pr: "pricePerBud (offers (trade (fst (haggleTradeOffer True (1 / 4) ''offer-0-0'' tradeExample))) ! 0) = 3"
    unfolding s[THEN conjunct2, THEN conjunct2, THEN conjunct2, rule_format, OF rg, THEN conjunct1] p m
    by simp
  have a2: "offers (trade (fst (haggleTradeOffer True (1 / 4) ''offer-0-0'' tradeExample))) =
     [\<lparr>id_O = ''offer-0-0'', quantity = 10, pricePerBud = 3\<rparr>,
      \<lparr>id_O = ''offer-0-1'', quantity = 80, pricePerBud = 9 / 2\<rparr>]"
    by (subst s[THEN conjunct1]) (simp add: pr, simp add: tradeExample_def INITIAL_STATE_def)
  have a3: "fst (haggleTradeOffer True (1 / 4) ''offer-0-0'' tradeExample) =
     tradeExample\<lparr>trade := \<lparr>offers = [\<lparr>id_O = ''offer-0-0'', quantity = 10, pricePerBud = 3\<rparr>,
                          \<lparr>id_O = ''offer-0-1'', quantity = 80, pricePerBud = 9 / 2\<rparr>],
                nextRefreshAt = 30000\<rparr>\<rparr>"
    by (subst a[THEN conjunct2, THEN conjunct2, THEN conjunct1], unfold a2)
       (simp add: tradeExample_def INITIAL_STATE_def)
  have a4: "haggleTradeOffer True (1 / 4) ''offer-0-0'' tradeExample =
       (tradeExample\<lparr>trade := \<lparr>offers = [\<lparr>id_O = ''offer-0-0'', quantity = 10, pricePerBud = 3\<rparr>,
                          \<lparr>id_O = ''offer-0-1'', quantity = 80, pricePerBud = 9 / 2\<rparr>],
                nextRefreshAt = 30000\<rparr>\<rparr>, True)"
    using a1 a3 by (simp add: prod_eq_iff)
  have b1: "offers (trade (fst (haggleTradeOffer True (1 / 2) ''offer-0-0'' tradeExample))) =
        [\<lparr>id_O = ''offer-0-1'', quantity = 80, pricePerBud = 9 / 2\<rparr>]"
    unfolding b[THEN conjunct2, THEN conjunct2, THEN conjunct2, THEN conjunct2, THEN conjunct1,
        rule_format, OF ge, THEN conjunct1]
    by (simp add: tradeExample_def INITIAL_STATE_def)
  from h lt dq rg a4 a0 ge b1 n c show ?thesis by blast
qed

section \<open>Accepting an offer (C3)\<close>

text \<open>
  Claim C3 fails in the value the call returns. The flag \<open>accepted\<close> is set inside the
  updater and read when \<open>acceptTradeOffer\<close> returns. When React has not run the updater by
  then (\<open>eager = False\<close>), the call returns \<open>False\<close> although the offer exists and the
  buds suffice, and the sale is applied all the same: with 50 buds and 100 nugs, accepting
  the offer of 10 buds at 2.5 leaves 40 buds and 125 nugs, removes the offer, counts the
  trade and advances the sell quest by 10. Only when the updater ran before the return is
  the flag \<open>True\<close>; the new state is the same in both cases.
\<close>

theorem acceptTradeOffer_flag_lost:
  "find (\<lambda>x. id_O x = ''offer-0-0'') (offers (trade tradeExample))
       = Some \<lparr>id_O = ''offer-0-0'', quantity = 10, pricePerBud = 25 / 10\<rparr>
   \<and> buds tradeExample = 50
   \<and> nugs tradeExample = 100
   \<and> \<not> snd (acceptTradeOffer False ''offer-0-0'' tradeExample)
   \<and> buds (fst (acceptTradeOffer False ''offer-0-0'' tradeExample)) = 40
   \<and> nugs (fst (acceptTradeOffer False ''offer-0-0'' tradeExample)) = 125
   \<and> map id_O (offers (trade (fst (acceptTradeOffer False ''offer-0-0'' tradeExample)))) = [''offer-0-1'']
   \<and> totalTrades (stats (fst (acceptTradeOffer False ''offer-0-0'' tradeExample))) = 1
   \<and> totalBudsSold (stats (fst (acceptTradeOffer False ''offer-0-0'' tradeExample))) = 10
   \<and> totalNugsEarned (stats (fst (acceptTradeOffer False ''offer-0-0'' tradeExample))) = 25
   \<and> map progress (quests (fst (acceptTradeOffer False ''offer-0-0'' tradeExample))) = [0, 10, 0]
   \<and> acceptTradeOffer True ''offer-0-0'' tradeExample
       = (fst (acceptTradeOffer False ''offer-0-0'' tradeExample), True)"
proof -
  have f: "find (\<lambda>x. id_O x = ''offer-0-0'') (offers (trade tradeExample))
       = Some \<lparr>id_O = ''offer-0-0'', quantity = 10, pricePerBud = 25 / 10\<rparr>"
    by (simp add: tradeExample_def INITIAL_STATE_def)
  have b: "buds tradeExample = 50" "nugs tradeExample = 100"
    by (simp_all add: tradeExample_def INITIAL_STATE_def)
  have r: "acceptTradeOffer e ''offer-0-0'' tradeExample =
      (tradeExample\<lparr>buds := 40, nugs := 125,
         stats := (stats tradeExample)\<lparr>totalNugsEarned := 25, totalBudsSold := 10, totalTrades := 1\<rparr>,
         trade := (trade tradeExample)\<lparr>offers := [\<lparr>id_O = ''offer-0-1'', quantity = 80, pricePerBud = 9 / 2\<rparr>]\<rparr>,
         quests := map (\<lambda>q. if type q = Sell \<and> \<not> claimed q
                              then q\<lparr>progress := min (goal q) (fl (progress q + 10))\<rparr> else q)
                     (quests tradeExample)\<rparr>, e)" for e
    unfolding acceptTradeOffer_def f option.case
    by (simp add: b Let_def Math_floor_def) (simp add: tradeExample_def INITIAL_STATE_def)
  have q: "map progress (map (\<lambda>q. if type q = Sell \<and> \<not> claimed q
                              then q\<lparr>progress := min (goal q) (fl (progress q + 10))\<rparr> else q)
                     (quests tradeExample)) = [0, 10, 0]"
    by (simp add: tradeExample_def INITIAL_STATE_def DEFAULT_QUESTS_def)
  show ?thesis
    unfolding r using f b q by simp
qed

section \<open>Claiming a quest reward (C7)\<close>



section \<open>Generating offers (C4)\<close>




section \<open>Refresh cooldown (C5)\<close>

text \<open>
  Claim C5, as amended. The cooldown is enforced by the trade panel and not by the engine.
  While the panel's clock is before \<open>nextRefreshAt\<close> the refresh button is disabled, so a
  click does not reach the handler and the state stays as it is; from \<open>nextRefreshAt\<close> on
  the click runs the handler. \<open>generateTradeOffers\<close> itself never looks at the old
  \<open>nextRefreshAt\<close>: on every call it installs 3 offers and sets
  \<open>nextRefreshAt = now + 30000\<close>.
\<close>

theorem clickRefresh_cooldown:
  "(now < nextRefreshAt (trade s) \<longrightarrow>
       \<not> canRefresh (nextRefreshAt (trade s)) now \<and> clickRefresh now onRefresh s = s)
   \<and> (nextRefreshAt (trade s) \<le> now \<longrightarrow> clickRefresh now onRefresh s = onRefresh s)
   \<and> nextRefreshAt (trade (generateTradeOffers n rnd s)) = of_nat n + 30000
   \<and> length (offers (trade (generateTradeOffers n rnd s))) = 3"
  by (simp add: clickRefresh_def canRefresh_def refreshCooldownMs_def generateTradeOffers_def
      Let_def del: upt_Suc)

theorem clickRefresh_cooldown_witness:
  "(1::real) < nextRefreshAt (trade tradeExample)
   \<and> clickRefresh 1 (generateTradeOffers 1 zeroDraws) tradeExample = tradeExample
   \<and> (30000::real) \<le> 30000
   \<and> nextRefreshAt (trade (clickRefresh 30000 (generateTradeOffers 30000 zeroDraws) tradeExample)) = 60000"
proof -
  have h: "(1::real) < nextRefreshAt (trade tradeExample)"
    by (simp add: tradeExample_def INITIAL_STATE_def)
  have g: "nextRefreshAt (trade tradeExample) \<le> 30000"
    by (simp add: tradeExample_def INITIAL_STATE_def)
  note a = clickRefresh_cooldown[of 1 tradeExample "generateTradeOffers 1 zeroDraws",
      THEN conjunct1, rule_format, OF h, THEN conjunct2]
  note b = clickRefresh_cooldown[of 30000 tradeExample "generateTradeOffers 30000 zeroDraws" 30000 zeroDraws]
  have c: "nextRefreshAt (trade (clickRefresh 30000 (generateTradeOffers 30000 zeroDraws) tradeExample)) = 60000"
    unfolding b[THEN conjunct2, THEN conjunct1, rule_format, OF g]
    using b[THEN conjunct2, THEN conjunct2, THEN conjunct1] by simp
  from h a c show ?thesis by simp
qed

text \<open>Called one millisecond into a cooldown that ends at 30000, the engine operation
  changes the state.\<close>

theorem generateTradeOffers_cooldown_counterexample:
  "of_nat 1 < nextRefreshAt (trade tradeExample)
   \<and> generateTradeOffers 1 zeroDraws tradeExample \<noteq> tradeExample"
proof -
  have h: "of_nat 1 < nextRefreshAt (trade tradeExample)"
    by (simp add: tradeExample_def INITIAL_STATE_def)
  have "nextRefreshAt (trade (generateTradeOffers 1 zeroDraws tradeExample)) = 30001"
    by (simp add: generateTradeOffers_def Let_def)
  moreover have "nextRefreshAt (trade tradeExample) = 30000"
    by (simp add: tradeExample_def INITIAL_STATE_def)
  ultimately have "generateTradeOffers 1 zeroDraws tradeExample \<noteq> tradeExample"
    by auto
  with h show ?thesis by simp
qed

section \<open>Growth invariant (C6)\<close>

text \<open>
  Claim C6. Take a phase catalog whose durations are not negative, a time multiplier that
  is not negative, and a plant whose \<open>phaseIndex\<close> is a position of the catalog and whose
  stored \<open>elapsedInPhase\<close> lies in \<open>[0, phaseDuration]\<close>, as a freshly planted one does. Then
  every number of runs of the interval callback returns (no \<open>TypeError\<close>), and after
  \<open>m \<le> n\<close> runs: the stored \<open>elapsedInPhase\<close> lies in \<open>[0, phaseDuration]\<close> of the then
  current phase, \<open>phaseIndex\<close> after \<open>m\<close> runs is at most \<open>phaseIndex\<close> after \<open>n\<close> runs and never
  below the initial one, it stays a position of the catalog, and a plant that is in the
  last phase after \<open>m\<close> runs is still in the last phase after \<open>n\<close> runs, however large \<open>n\<close>.
\<close>

theorem growth_invariant:
  assumes durations: "\<forall>ph\<in>set PHASES. 0 \<le> duration ph"
      and mult: "\<forall>sid. 0 \<le> getTimeMultiplier logic sid"
      and idx: "phaseIndex plant < length PHASES"
      and stored: "0 \<le> elapsedInPhase plant" "elapsedInPhase plant \<le> phaseDuration PHASES logic plant"
      and loc: "0 \<le> localElapsed"
      and le: "m \<le> n"
  shows "\<exists>pm lm pn ln.
           ticks PHASES logic m (plant, localElapsed) = Inr (pm, lm)
         \<and> ticks PHASES logic n (plant, localElapsed) = Inr (pn, ln)
         \<and> 0 \<le> elapsedInPhase pn \<and> elapsedInPhase pn \<le> phaseDuration PHASES logic pn
         \<and> phaseIndex plant \<le> phaseIndex pm \<and> phaseIndex pm \<le> phaseIndex pn
         \<and> phaseIndex pn < length PHASES
         \<and> (phaseIndex pm = length PHASES - 1 \<longrightarrow> phaseIndex pn = length PHASES - 1)"
proof -
  from ticks_invariant[OF durations mult idx stored loc, of m]
  obtain pm lm where a: "ticks PHASES logic m (plant, localElapsed) = Inr (pm, lm)"
    and i: "phaseIndex pm < length PHASES" "0 \<le> elapsedInPhase pm"
      "elapsedInPhase pm \<le> phaseDuration PHASES logic pm" "0 \<le> lm"
    and m1: "phaseIndex plant \<le> phaseIndex pm"
    by blast
  from ticks_invariant[OF durations mult i, of "n - m"]
  obtain pn ln where b: "ticks PHASES logic (n - m) (pm, lm) = Inr (pn, ln)"
    and j: "phaseIndex pn < length PHASES" "0 \<le> elapsedInPhase pn"
      "elapsedInPhase pn \<le> phaseDuration PHASES logic pn"
    and m2: "phaseIndex pm \<le> phaseIndex pn"
    by blast
  have "ticks PHASES logic (m + (n - m)) (plant, localElapsed) = Inr (pn, ln)"
    unfolding ticks_add using a b by simp
  then have c: "ticks PHASES logic n (plant, localElapsed) = Inr (pn, ln)"
    using le by simp
  have last: "phaseIndex pm = length PHASES - 1 \<longrightarrow> phaseIndex pn = length PHASES - 1"
    using m2 j(1) by auto
  from a c j m1 m2 last show ?thesis by blast
qed

theorem growth_invariant_witness:
  "map duration examplePhases = [2, 2, 2, 2, 2, 2]
   \<and> (\<forall>sid. 0 \<le> getTimeMultiplier exampleLogic sid)
   \<and> phaseIndex examplePlant < length examplePhases
   \<and> 0 \<le> elapsedInPhase examplePlant
   \<and> elapsedInPhase examplePlant \<le> phaseDuration examplePhases exampleLogic examplePlant
   \<and> (0::real) \<le> 0 \<and> (2::nat) \<le> 5
   \<and> ticks examplePhases exampleLogic 2 (examplePlant, 0)
        = Inr (examplePlant\<lparr>elapsedInPhase := 0, phaseIndex := 5\<rparr>, 0)
   \<and> ticks examplePhases exampleLogic 5 (examplePlant, 0)
        = Inr (examplePlant\<lparr>elapsedInPhase := 1, phaseIndex := 5\<rparr>, 3)"
proof -
  have h1: "\<forall>ph\<in>set examplePhases. 0 \<le> duration ph" by (rule examplePhases_durations)
  have h2: "\<forall>sid. 0 \<le> getTimeMultiplier exampleLogic sid" by (simp add: exampleLogic_def)
  have h3: "phaseIndex examplePlant < length examplePhases"
    by (simp add: examplePlant_def examplePhases_nth)
  have h4: "0 \<le> elapsedInPhase examplePlant" by (simp add: examplePlant_def)
  have h5: "elapsedInPhase examplePlant \<le> phaseDuration examplePhases exampleLogic examplePlant"
    by (simp add: examplePlant_def phaseDuration_def examplePhases_nth exampleLogic_def)
  have h6: "(0::real) \<le> 0" by simp
  have h7: "(2::nat) \<le> 5" by simp
  from growth_invariant[OF h1 h2 h3 h4 h5 h6 h7]
  obtain pm lm pn ln where
    a: "ticks examplePhases exampleLogic 2 (examplePlant, 0) = Inr (pm, lm)" and
    b: "ticks examplePhases exampleLogic 5 (examplePlant, 0) = Inr (pn, ln)"
    by blast
  have t1: "tick examplePhases exampleLogic (examplePlant, 0)
      = Inr (examplePlant\<lparr>elapsedInPhase := 1\<rparr>, 1)"
    by (simp add: tick_def phaseDuration_def onUpdate_def examplePlant_def examplePhases_nth
        exampleLogic_def Let_def)
  have t2: "tick examplePhases exampleLogic (examplePlant\<lparr>elapsedInPhase := 1\<rparr>, 1)
      = Inr (examplePlant\<lparr>elapsedInPhase := 0, phaseIndex := 5\<rparr>, 0)"
    by (simp add: tick_def phaseDuration_def onUpdate_def examplePlant_def examplePhases_nth
        exampleLogic_def Let_def)
  have t3: "tick examplePhases exampleLogic (examplePlant\<lparr>elapsedInPhase := 0, phaseIndex := 5\<rparr>, 0)
      = Inr (examplePlant\<lparr>elapsedInPhase := 1, phaseIndex := 5\<rparr>, 1)"
    by (simp add: tick_def phaseDuration_def onUpdate_def examplePlant_def examplePhases_nth
        exampleLogic_def Let_def)
  have t4: "tick examplePhases exampleLogic (examplePlant\<lparr>elapsedInPhase := 1, phaseIndex := 5\<rparr>, 1)
      = Inr (examplePlant\<lparr>elapsedInPhase := 1, phaseIndex := 5\<rparr>, 2)"
    by (simp add: tick_def phaseDuration_def onUpdate_def examplePlant_def examplePhases_nth
        exampleLogic_def Let_def)
  have t5: "tick examplePhases exampleLogic (examplePlant\<lparr>elapsedInPhase := 1, phaseIndex := 5\<rparr>, 2)
      = Inr (examplePlant\<lparr>elapsedInPhase := 1, phaseIndex := 5\<rparr>, 3)"
    by (simp add: tick_def phaseDuration_def onUpdate_def examplePlant_def examplePhases_nth
        exampleLogic_def Let_def)
  have n2: "(2::nat) = Suc (Suc 0)" and n5: "(5::nat) = Suc (Suc (Suc (Suc (Suc 0))))"
    by simp_all
  have "ticks examplePhases exampleLogic (Suc (Suc 0)) (examplePlant, 0)
        = Inr (examplePlant\<lparr>elapsedInPhase := 0, phaseIndex := 5\<rparr>, 0)"
    by (simp add: t1 t2)
  then have c2: "ticks examplePhases exampleLogic 2 (examplePlant, 0)
        = Inr (examplePlant\<lparr>elapsedInPhase := 0, phaseIndex := 5\<rparr>, 0)"
    unfolding n2[symmetric] .
  have "ticks examplePhases exampleLogic (Suc (Suc (Suc (Suc (Suc 0))))) (examplePlant, 0)
        = Inr (examplePlant\<lparr>elapsedInPhase := 1, phaseIndex := 5\<rparr>, 3)"
    by (simp add: t1 t2 t3 t4 t5)
  then have c5: "ticks examplePhases exampleLogic 5 (examplePlant, 0)
        = Inr (examplePlant\<lparr>elapsedInPhase := 1, phaseIndex := 5\<rparr>, 3)"
    unfolding n5[symmetric] .
  have h0: "map duration examplePhases = [2, 2, 2, 2, 2, 2]"
    by (simp add: examplePhases_def)
  from h0 h2 h3 h4 h5 h6 h7 c2 c5 a b show ?thesis by blast
qed

section \<open>Phase duration (C1)\<close>

text \<open>
  Claim C1. The growth step computes the duration of the current phase as the catalog
  duration times the time multiplier of the strain times the soil multiplier (0.9 for
  light-mix, 1 for every other soil). The growth multiplier of the active event is not a
  factor: \<open>PlantSlot\<close> never receives the event. With the preset event \<open>mystic-fog\<close>
  (\<open>growthMultiplier = 1.2\<close>) active and a phase of duration 2, the code computes 2 where
  the formula of the claim gives 2.4.
\<close>

theorem phaseDuration_ignores_event:
  "phaseDuration PHASES logic plant =
      duration (PHASES ! phaseIndex plant) * getTimeMultiplier logic (strainId plant)
      * (if soilType (modifiers plant) = LightMix then 9 / 10 else 1)
   \<and> slots mysticFogExample ! 0 = Planted examplePlant
   \<and> event mysticFogExample = Some (presets 60000 ! 1)
   \<and> growthMultiplier (effects (presets 60000 ! 1)) = Some (12 / 10)
   \<and> phaseDuration examplePhases exampleLogic examplePlant = 2
   \<and> phaseDuration_spec examplePhases exampleLogic (event mysticFogExample) examplePlant = 12 / 5"
proof -
  have e: "event mysticFogExample = Some (presets 60000 ! 1)"
    by (simp add: mysticFogExample_def triggerRandomEvent_def INITIAL_STATE_def)
  have g: "growthMultiplier (effects (presets 60000 ! 1)) = Some (12 / 10)"
    by (simp add: presets_def)
  have s: "slots mysticFogExample ! 0 = Planted examplePlant"
    by (simp add: mysticFogExample_def triggerRandomEvent_def INITIAL_STATE_def)
  have c: "phaseDuration examplePhases exampleLogic examplePlant = 2"
    by (simp add: phaseDuration_def examplePlant_def examplePhases_nth exampleLogic_def)
  have d: "phaseDuration_spec examplePhases exampleLogic (event mysticFogExample) examplePlant = 12 / 5"
    unfolding e by (simp add: phaseDuration_spec_def presets_def examplePlant_def examplePhases_nth exampleLogic_def)
  have f: "phaseDuration PHASES logic plant =
      duration (PHASES ! phaseIndex plant) * getTimeMultiplier logic (strainId plant)
      * (if soilType (modifiers plant) = LightMix then 9 / 10 else 1)"
    by (simp add: phaseDuration_def)
  from f s e g c d show ?thesis by blast
qed

section \<open>Currency invariant (C10)\<close>

text \<open>
  Claim C10 fails, and against the purpose of the code: \<open>spendNugs\<close> and \<open>spendBuds\<close>
  guard the subtraction with a balance check, but the check reads the balance of the last
  render while the subtraction is applied to the pending state. Two calls of
  \<open>spendNugs 60\<close> made from the same render of the initial state (\<open>nugs = 100\<close>) both pass
  the check, both return \<open>true\<close>, and leave \<open>nugs = -20\<close>; two calls of \<open>spendBuds 30\<close> with
  50 buds leave \<open>buds = -10\<close>. Apart from that, no operation validates its amount:
  \<open>addNugs (-101)\<close> leaves \<open>nugs = -1\<close> and \<open>addBuds 0.5\<close> leaves half a bud.
\<close>

theorem spend_stale_balance:
  "snd (spendNugs 60 INITIAL_STATE INITIAL_STATE)
   \<and> nugs (fst (spendNugs 60 INITIAL_STATE INITIAL_STATE)) = 40
   \<and> snd (spendNugs 60 INITIAL_STATE (fst (spendNugs 60 INITIAL_STATE INITIAL_STATE)))
   \<and> nugs (fst (spendNugs 60 INITIAL_STATE (fst (spendNugs 60 INITIAL_STATE INITIAL_STATE)))) = - 20
   \<and> snd (spendBuds 30 tradeExample tradeExample)
   \<and> snd (spendBuds 30 tradeExample (fst (spendBuds 30 tradeExample tradeExample)))
   \<and> buds (fst (spendBuds 30 tradeExample (fst (spendBuds 30 tradeExample tradeExample)))) = - 10
   \<and> nugs (addNugs (- 101) INITIAL_STATE) = - 1
   \<and> buds (addBuds (1 / 2) INITIAL_STATE) = 1 / 2"
  by (simp add: spendNugs_def spendBuds_def addNugs_def addBuds_def INITIAL_STATE_def tradeExample_def)

section \<open>Save and load (C8)\<close>

text \<open>
  Claim C8 fails on a reachable state. \<open>removePlant 3\<close> on the initial state, whose slot
  array has two entries, writes \<open>null\<close> at index 3 and leaves a hole at index 2. The hole
  reads as \<open>undefined\<close>; \<open>JSON.stringify\<close> writes it as \<open>null\<close>, so the loaded state has
  \<open>null\<close> where the saved state had the hole.
\<close>

theorem save_load_roundtrip_counterexample:
  "slots (removePlant 3 INITIAL_STATE) = [Null, Null, Hole, Null]
   \<and> getProp (encodeState (removePlant 3 INITIAL_STATE)) ''slots''
       = JArr [JNull, JNull, JUndefined, JNull]
   \<and> getProp (loadState (manualSave (removePlant 3 INITIAL_STATE))) ''slots''
       = JArr [JNull, JNull, JNull, JNull]
   \<and> loadState (manualSave (removePlant 3 INITIAL_STATE)) \<noteq> encodeState (removePlant 3 INITIAL_STATE)"
proof -
  let ?s = "removePlant 3 INITIAL_STATE"
  have s: "slots ?s = [Null, Null, Hole, Null]"
    by (simp add: removePlant_def arraySet_def INITIAL_STATE_def eval_nat_numeral)
  have a: "getProp (encodeState ?s) ''slots'' = JArr [JNull, JNull, JUndefined, JNull]"
    by (simp add: encodeState_def obj_def getProp_def s encodeSlot_def)
  have b: "getProp (loadState (manualSave ?s)) ''slots'' = JArr [JNull, JNull, JNull, JNull]"
    by (simp add: loadState_def manualSave_def encodeState_def obj_def getProp_def props_def s
        encodeSlot_def undefinedToNull_def dropUndefined_def map_add_def)
  have "getProp (loadState (manualSave ?s)) ''slots'' \<noteq> getProp (encodeState ?s) ''slots''"
    unfolding a b by simp
  then have "loadState (manualSave ?s) \<noteq> encodeState ?s" by auto
  with s a b show ?thesis by blast
qed

text \<open>
  Claim C8, as amended. For every state \<open>s\<close> of the declared type \<open>GameState\<close> whose slot
  array has no hole, loading what \<open>manualSave\<close> (or the autosave) stored gives back the
  JavaScript value of \<open>s\<close>, property for property: \<open>deserialize (serialize s) = s\<close>. The
  numbers of such a state are finite by the type of the model. The only property that
  \<open>JSON.stringify\<close> leaves out, an \<open>event\<close> that is \<open>undefined\<close>, comes back as \<open>undefined\<close>
  from the defaults. A slot without a plant is stored as \<open>null\<close>. \<open>plantSeed\<close> and
  \<open>removePlant\<close> leave no hole when the index is at most the length of the array.
\<close>

theorem save_load_roundtrip:
  assumes "Hole \<notin> set (slots s)"
  shows "loadState (manualSave s) = encodeState s
       \<and> (\<forall>i\<le>length (slots s). Hole \<notin> set (slots (removePlant i s))
             \<and> Hole \<notin> set (slots (plantSeed i strain soil nowId nowPlanted s)))"
proof -
  let ?m = "(props (encodeState s))(''event'' := map_option encodeEvent (event s))"
  have st: "getProp (JObj ?m) ''stats'' = encodeStats (stats s)"
    and tr: "getProp (JObj ?m) ''trade'' = encodeTrade (trade s)"
    and qu: "getProp (JObj ?m) ''quests'' = JArr (map encodeQuest (quests s))"
    by (simp_all add: getProp_def props_def encodeState_def obj_def)
  have t: "truthy (encodeStats (stats s))" "truthy (encodeTrade (trade s))"
    "truthy (JArr (map encodeQuest (quests s)))"
    by (simp_all add: truthy_def encodeStats_def encodeTrade_def obj_def)
  have ms: "props (encodeStats (stats INITIAL_STATE)) ++ props (encodeStats (stats s))
        = props (encodeStats (stats s))"
    by (rule ext) (simp add: props_def encodeStats_def obj_def map_add_def)
  have mt: "props (encodeTrade (trade INITIAL_STATE)) ++ props (encodeTrade (trade s))
        = props (encodeTrade (trade s))"
    by (rule ext) (simp add: props_def encodeTrade_def obj_def map_add_def)
  have os: "JObj (props (encodeStats (stats s))) = encodeStats (stats s)"
    and ot: "JObj (props (encodeTrade (trade s))) = encodeTrade (trade s)"
    by (simp_all add: props_def encodeStats_def encodeTrade_def obj_def)
  have top: "(props (encodeState INITIAL_STATE) ++ ?m)
           (''stats'' \<mapsto> encodeStats (stats s),
            ''trade'' \<mapsto> encodeTrade (trade s),
            ''quests'' \<mapsto> JArr (map encodeQuest (quests s))) = props (encodeState s)"
    by (rule ext, cases "event s")
       (simp_all add: props_def encodeState_def obj_def map_add_def INITIAL_STATE_def)
  have "loadState (manualSave s) = JObj (props (encodeState s))"
    unfolding manualSave_def JSON_copy_encodeState[OF assms] loadState_def saved.case
    by (simp only: st tr qu orElse_def t if_True ms mt os ot top props_def[of "JObj _"] js.case)
  also have "\<dots> = encodeState s"
    by (simp add: props_def encodeState_def obj_def)
  finally have rt: "loadState (manualSave s) = encodeState s" .
  have "Hole \<notin> set (arraySet i v (slots s))" if "i \<le> length (slots s)" "v \<noteq> Hole" for i v
    using that assms by (auto simp add: arraySet_def dest: set_update_subset_insert[THEN subsetD])
  then have "\<forall>i\<le>length (slots s). Hole \<notin> set (slots (removePlant i s))
             \<and> Hole \<notin> set (slots (plantSeed i strain soil nowId nowPlanted s))"
    by (simp add: removePlant_def plantSeed_def Let_def)
  with rt show ?thesis by blast
qed

theorem save_load_roundtrip_witness:
  "Hole \<notin> set (slots (plantSeed 1 ''og-kush'' LightMix 17 18 INITIAL_STATE))
   \<and> loadState (manualSave (plantSeed 1 ''og-kush'' LightMix 17 18 INITIAL_STATE))
       = encodeState (plantSeed 1 ''og-kush'' LightMix 17 18 INITIAL_STATE)
   \<and> 2 \<le> length (slots (plantSeed 1 ''og-kush'' LightMix 17 18 INITIAL_STATE))
   \<and> Hole \<notin> set (slots (removePlant 2 (plantSeed 1 ''og-kush'' LightMix 17 18 INITIAL_STATE)))"
proof -
  have h: "Hole \<notin> set (slots (plantSeed 1 ''og-kush'' LightMix 17 18 INITIAL_STATE))"
    by (simp add: plantSeed_def arraySet_def INITIAL_STATE_def)
  have l: "2 \<le> length (slots (plantSeed 1 ''og-kush'' LightMix 17 18 INITIAL_STATE))"
    by (simp add: plantSeed_def arraySet_def INITIAL_STATE_def)
  note t = save_load_roundtrip[OF h, of "''og-kush''" LightMix 17 18]
  from h l t[THEN conjunct1] t[THEN conjunct2, rule_format, OF l, THEN conjunct1]
  show ?thesis by blast
qed

section \<open>Forward-compatible load (C9)\<close>

text \<open>
  Claim C9. Loading never fails. With nothing stored, or with a text that does not parse,
  the result is the default initial state. For a text that parses to \<open>parsed\<close> the result is
  an object in which every top-level property other than \<open>stats\<close>, \<open>trade\<close> and \<open>quests\<close>
  is the one of \<open>parsed\<close> when \<open>parsed\<close> has it and the default otherwise; \<open>quests\<close> is the
  default quest catalog when \<open>parsed\<close> has no \<open>quests\<close>, and the saved one when that is truthy;
  each property of \<open>stats\<close> is the saved one when \<open>parsed.stats\<close> has it and the default
  otherwise, and the same holds for \<open>trade\<close>, each with its own defaults.
\<close>

theorem loadState_forward_compatible:
  "loadState NoSave = encodeState INITIAL_STATE
   \<and> loadState Unparseable = encodeState INITIAL_STATE
   \<and> (\<exists>m. loadState (Parsed parsed) = JObj m)
   \<and> (\<forall>k. k \<notin> {''stats'', ''trade'', ''quests''} \<longrightarrow>
         props (loadState (Parsed parsed)) k =
           (case props parsed k of Some v \<Rightarrow> Some v
            | None \<Rightarrow> props (encodeState INITIAL_STATE) k))
   \<and> (getProp parsed ''quests'' = JUndefined \<longrightarrow>
         getProp (loadState (Parsed parsed)) ''quests'' = JArr (map encodeQuest DEFAULT_QUESTS))
   \<and> (truthy (getProp parsed ''quests'') \<longrightarrow>
         getProp (loadState (Parsed parsed)) ''quests'' = getProp parsed ''quests'')
   \<and> (\<forall>f. props (getProp (loadState (Parsed parsed)) ''stats'') f =
           (case props (getProp parsed ''stats'') f of Some v \<Rightarrow> Some v
            | None \<Rightarrow> props (encodeStats (stats INITIAL_STATE)) f))
   \<and> (\<forall>f. props (getProp (loadState (Parsed parsed)) ''trade'') f =
           (case props (getProp parsed ''trade'') f of Some v \<Rightarrow> Some v
            | None \<Rightarrow> props (encodeTrade (trade INITIAL_STATE)) f))"
proof -
  have a: "loadState NoSave = encodeState INITIAL_STATE"
    "loadState Unparseable = encodeState INITIAL_STATE"
    by (simp_all add: loadState_def)
  have b: "\<exists>m. loadState (Parsed parsed) = JObj m"
    by (simp add: loadState_def)
  have c: "props (loadState (Parsed parsed)) k =
           (case props parsed k of Some v \<Rightarrow> Some v
            | None \<Rightarrow> props (encodeState INITIAL_STATE) k)"
    if "k \<notin> {''stats'', ''trade'', ''quests''}" for k
    using that by (simp add: loadState_def props_def[of "JObj _"] map_add_def split: option.splits)
  have d: "getProp (loadState (Parsed parsed)) ''quests''
      = orElse (getProp parsed ''quests'') (JArr (map encodeQuest DEFAULT_QUESTS))"
    by (simp add: loadState_def getProp_def)
  have d1: "getProp parsed ''quests'' = JUndefined \<longrightarrow>
         getProp (loadState (Parsed parsed)) ''quests'' = JArr (map encodeQuest DEFAULT_QUESTS)"
    unfolding d by (simp add: orElse_def truthy_def)
  have d2: "truthy (getProp parsed ''quests'') \<longrightarrow>
         getProp (loadState (Parsed parsed)) ''quests'' = getProp parsed ''quests''"
    unfolding d by (simp add: orElse_def)
  have e: "props (getProp (loadState (Parsed parsed)) ''stats'') f =
           (case props (getProp parsed ''stats'') f of Some v \<Rightarrow> Some v
            | None \<Rightarrow> props (encodeStats (stats INITIAL_STATE)) f)" for f
    by (simp add: loadState_def getProp_def[of "JObj _"] props_def[of "JObj _"] props_orElse_empty
        map_add_def split: option.splits)
  have g: "props (getProp (loadState (Parsed parsed)) ''trade'') f =
           (case props (getProp parsed ''trade'') f of Some v \<Rightarrow> Some v
            | None \<Rightarrow> props (encodeTrade (trade INITIAL_STATE)) f)" for f
    by (simp add: loadState_def getProp_def[of "JObj _"] props_def[of "JObj _"] props_orElse_empty
        map_add_def split: option.splits)
  from a b c d1 d2 e g show ?thesis by blast
qed

theorem loadState_forward_compatible_witness:
  "''nugs'' \<notin> {''stats'', ''trade'', ''quests''}
   \<and> props (loadState (Parsed oldSave)) ''nugs'' = Some (JNum 42)
   \<and> ''buds'' \<notin> {''stats'', ''trade'', ''quests''}
   \<and> props (loadState (Parsed oldSave)) ''buds'' = Some (JNum 0)
   \<and> getProp oldSave ''quests'' = JUndefined
   \<and> getProp (loadState (Parsed oldSave)) ''quests'' = JArr (map encodeQuest DEFAULT_QUESTS)
   \<and> props (getProp (loadState (Parsed oldSave)) ''stats'') ''totalHarvests'' = Some (JNum 7)
   \<and> props (getProp (loadState (Parsed oldSave)) ''stats'') ''totalTrades'' = Some (JNum 0)
   \<and> props (getProp (loadState (Parsed oldSave)) ''trade'') ''nextRefreshAt'' = Some (JNum 5000)
   \<and> props (getProp (loadState (Parsed oldSave)) ''trade'') ''offers'' = Some (JArr [])"
proof -
  note t = loadState_forward_compatible[of oldSave]
  have k1: "''nugs'' \<notin> {''stats'', ''trade'', ''quests''}" by simp
  have k2: "''buds'' \<notin> {''stats'', ''trade'', ''quests''}" by simp
  have q: "getProp oldSave ''quests'' = JUndefined"
    by (simp add: oldSave_def getProp_def obj_def)
  have c1: "props (loadState (Parsed oldSave)) ''nugs'' = Some (JNum 42)"
    unfolding t[THEN conjunct2, THEN conjunct2, THEN conjunct2, THEN conjunct1, rule_format, OF k1]
    by (simp add: oldSave_def props_def obj_def)
  have c2: "props (loadState (Parsed oldSave)) ''buds'' = Some (JNum 0)"
    unfolding t[THEN conjunct2, THEN conjunct2, THEN conjunct2, THEN conjunct1, rule_format, OF k2]
    by (simp add: oldSave_def props_def obj_def encodeState_def INITIAL_STATE_def)
  note c3 = t[THEN conjunct2, THEN conjunct2, THEN conjunct2, THEN conjunct2, THEN conjunct1,
      rule_format, OF q]
  note st = t[THEN conjunct2, THEN conjunct2, THEN conjunct2, THEN conjunct2, THEN conjunct2,
      THEN conjunct2, THEN conjunct1, rule_format]
  note tr = t[THEN conjunct2, THEN conjunct2, THEN conjunct2, THEN conjunct2, THEN conjunct2,
      THEN conjunct2, THEN conjunct2, rule_format]
  have c4: "props (getProp (loadState (Parsed oldSave)) ''stats'') ''totalHarvests'' = Some (JNum 7)"
    unfolding st by (simp add: oldSave_def getProp_def props_def obj_def)
  have c5: "props (getProp (loadState (Parsed oldSave)) ''stats'') ''totalTrades'' = Some (JNum 0)"
    unfolding st
    by (simp add: oldSave_def getProp_def props_def obj_def encodeStats_def INITIAL_STATE_def)
  have c6: "props (getProp (loadState (Parsed oldSave)) ''trade'') ''nextRefreshAt'' = Some (JNum 5000)"
    unfolding tr by (simp add: oldSave_def getProp_def props_def obj_def)
  have c7: "props (getProp (loadState (Parsed oldSave)) ''trade'') ''offers'' = Some (JArr [])"
    unfolding tr
    by (simp add: oldSave_def getProp_def props_def obj_def encodeTrade_def INITIAL_STATE_def)
  from k1 c1 k2 c2 q c3 c4 c5 c6 c7 show ?thesis by blast
qed

end
